theory Spec2Isabelle
  imports Main
begin


section \<open>Values shared by the services\<close>

text \<open>
  The message status enumeration of \<^verbatim>\<open>types/index.ts\<close>, and the result object
  that \<^verbatim>\<open>OpenPhoneService.sendMessage\<close> resolves to. Optional fields are options.
  Durations are differences of \<^verbatim>\<open>Date.now()\<close> readings, in milliseconds.
\<close>

datatype MessageStatus = PENDING | SENDING | SENT | FAILED | RETRYING

record MessageResult =
  success :: bool
  status :: MessageStatus
  error :: "string option"
  errorCode :: "string option"
  screenshotPath :: "string option"
  screenshotPaths :: "string list option"
  durationMs :: "nat option"

text \<open>
  A JavaScript string is a sequence of UTF-16 code units. The strings of the model are
  those whose code units are below 256, a \<open>char\<close> being the code unit of that number.
\<close>

text \<open>
  A thrown JavaScript error, with the two properties the code reads from it.
\<close>

datatype js_error = JsError (err_name: string) (err_message: string)

text \<open>How the evaluation of an awaited call ends: it returns a result or it throws.\<close>

datatype 'a completion = Returns 'a | Throws js_error

record MediaFile =
  filename :: string
  mimeType :: string
  data :: string

text \<open>
  The request body of \<^verbatim>\<open>/webhook/send\<close>. A missing string field and an empty one are
  both falsy in the checks of the source, so \<open>phone\<close> and \<open>msg_text\<close> (the field
  \<^verbatim>\<open>text\<close>) are strings; \<open>media\<close> is optional.
\<close>

record WebhookPayload =
  phone :: string
  msg_text :: string
  external_id :: "string option"
  media :: "MediaFile list option"

text \<open>
  The row written by \<^verbatim>\<open>SupabaseService.logMessage\<close> and the body posted by
  \<^verbatim>\<open>N8nWebhookService.sendCallback\<close>. The timestamp fields (a reading of the clock)
  are left out of both.
\<close>

record MessageLog =
  log_phone :: string
  log_text_hash :: string
  log_status :: MessageStatus
  log_attempt :: nat
  log_error_code :: "string option"
  log_error_text :: "string option"
  log_screenshot_path :: "string option"
  log_external_id :: "string option"
  log_duration_ms :: "nat option"

record N8nCallbackPayload =
  cb_success :: bool
  cb_status :: MessageStatus
  cb_phone :: string
  cb_external_id :: "string option"
  cb_attempt :: nat
  cb_duration_ms :: "nat option"
  cb_error :: "(string option \<times> string option) option"
  cb_screenshot_url :: "string option"
  cb_screenshot_urls :: "string list option"

text \<open>
  \<^verbatim>\<open>config.queue\<close> and \<^verbatim>\<open>config.n8n\<close>. The three numbers come from \<^verbatim>\<open>parseInt\<close> of an
  environment variable, so they are integers of either sign. (A setting that does not
  parse is NaN, for which every comparison of the retry loop is false, as for 0.)
\<close>

record config =
  maxRetries :: int
  minDelay :: int
  maxDelay :: int
  webhookUrl :: string

section \<open>Effects\<close>

text \<open>
  What a run does to the outside world, in order: rows handed to the database client,
  bodies posted to the webhook, files handed to the storage client, calls of the browser
  service, sleeps, and the staging and deletion of media files.
\<close>

datatype event =
    Insert MessageLog
  | Post string N8nCallbackPayload
  | Upload string
  | Send string string "string list option"
  | Sleep nat
  | RandomSleep int int
  | SaveMedia "MediaFile list"
  | Cleanup "string list"

text \<open>
  An asynchronous computation is the list of its effects together with its completion.
  \<open>io_bind\<close> is sequencing of awaited calls, \<open>try_catch\<close> and \<open>try_finally\<close> are the
  statements of the same name.
\<close>

type_synonym 'a io = "event list \<times> 'a completion"

definition ret :: "'a \<Rightarrow> 'a io" where
  "ret x = ([], Returns x)"

definition throw :: "js_error \<Rightarrow> 'a io" where
  "throw e = ([], Throws e)"

definition emit :: "event \<Rightarrow> unit io" where
  "emit ev = ([ev], Returns ())"

definition io_bind :: "'a io \<Rightarrow> ('a \<Rightarrow> 'b io) \<Rightarrow> 'b io" where
  "io_bind m f =
     (case m of
        (t, Throws e) \<Rightarrow> (t, Throws e)
      | (t, Returns x) \<Rightarrow> (case f x of (t', r) \<Rightarrow> (t @ t', r)))"

definition try_catch :: "'a io \<Rightarrow> (js_error \<Rightarrow> 'a io) \<Rightarrow> 'a io" where
  "try_catch m h =
     (case m of
        (t, Throws e) \<Rightarrow> (case h e of (t', r) \<Rightarrow> (t @ t', r))
      | (t, Returns x) \<Rightarrow> (t, Returns x))"

definition try_finally :: "'a io \<Rightarrow> unit io \<Rightarrow> 'a io" where
  "try_finally m c =
     (case m of (t, r) \<Rightarrow>
        (case c of
           (t', Throws e) \<Rightarrow> (t @ t', Throws e)
         | (t', Returns u) \<Rightarrow> (t @ t', r)))"

section \<open>The environment of a run\<close>

text \<open>
  The outcomes of the calls that leave the process. The database insert resolves to an
  object whose \<^verbatim>\<open>error\<close> is null or set, or rejects. \<^verbatim>\<open>fetch\<close> rejects or resolves
  to a response with \<^verbatim>\<open>ok\<close>, \<^verbatim>\<open>status\<close> and a body read by \<^verbatim>\<open>text()\<close>. An upload finds
  no file, throws when the local file is read (before the storage client is called),
  throws in the call of the storage client, resolves with an error, throws when the
  public URL is asked for, or yields the public URL.
\<close>

datatype insert_result = InsertResolved "js_error option" | InsertRejected js_error

datatype fetch_result = FetchRejected js_error | FetchResponse bool nat "string completion"

datatype upload_result =
    FileMissing
  | ReadThrew js_error
  | UploadThrew js_error
  | UploadError
  | PublicUrlThrew js_error
  | PublicUrl string

text \<open>
  \<open>send_outcome k\<close> is how the call of \<^verbatim>\<open>sendMessage\<close> made by attempt \<open>k\<close> ends;
  \<open>save_outcome\<close> is how \<^verbatim>\<open>saveMediaFiles\<close> ends (it writes to the file system under a
  name derived from the clock); \<open>hashText\<close> is the truncated SHA-256 digest.
\<close>

record env =
  send_outcome :: "nat \<Rightarrow> MessageResult completion"
  save_outcome :: "MediaFile list \<Rightarrow> string list completion"
  hashText :: "string \<Rightarrow> string"
  insert_outcome :: "MessageLog \<Rightarrow> insert_result"
  fetch_outcome :: "N8nCallbackPayload \<Rightarrow> fetch_result"
  upload_outcome :: "string \<Rightarrow> upload_result"

section \<open>Helpers (utils/helpers.ts)\<close>

definition digit_char :: "nat \<Rightarrow> char" where
  "digit_char d = char_of (48 + d)"

fun show_nat :: "nat \<Rightarrow> string" where
  "show_nat n = (if n < 10 then [digit_char n] else show_nat (n div 10) @ [digit_char (n mod 10)])"

declare show_nat.simps [simp del]

text \<open>\<^verbatim>\<open>String.prototype.toLowerCase\<close> on code units below 256: the letters A to Z, and
  the capital letters from U+00C0 to U+00DE (the multiplication sign U+00D7 is not one).\<close>

definition toLowerCase_char :: "char \<Rightarrow> char" where
  "toLowerCase_char c =
     (let n = (of_char c :: nat)
      in if (65 \<le> n \<and> n \<le> 90) \<or> (192 \<le> n \<and> n \<le> 222 \<and> n \<noteq> 215) then char_of (n + 32)
         else c)"

definition toLowerCase :: "string \<Rightarrow> string" where
  "toLowerCase s = map toLowerCase_char s"

fun startsWith :: "string \<Rightarrow> string \<Rightarrow> bool" where
  "startsWith s [] = True"
| "startsWith [] (c # cs) = False"
| "startsWith (x # xs) (c # cs) = (x = c \<and> startsWith xs cs)"

text \<open>\<^verbatim>\<open>String.prototype.includes\<close>.\<close>

fun includes_str :: "string \<Rightarrow> string \<Rightarrow> bool" where
  "includes_str [] sub = (sub = [])"
| "includes_str (x # xs) sub = (startsWith (x # xs) sub \<or> includes_str xs sub)"

definition retryableMessages :: "string list" where
  "retryableMessages =
     [''timeout'', ''network'', ''ECONNRESET'', ''ETIMEDOUT'', ''ENOTFOUND'',
      ''Target closed'', ''Navigation timeout'']"

text \<open>
  \<^verbatim>\<open>isRetryableError\<close> reads only the \<^verbatim>\<open>message\<close> property of its argument; the
  argument here is that property (absent: the empty string).
\<close>

definition isRetryableError :: "string \<Rightarrow> bool" where
  "isRetryableError message =
     (let errorMessage = toLowerCase message
      in list_ex (\<lambda>msg. includes_str errorMessage (toLowerCase msg)) retryableMessages)"

section \<open>The sinks\<close>

text \<open>\<^verbatim>\<open>SupabaseService.logMessage\<close>: the insert, and an error result thrown, inside a
  try whose handler only logs.\<close>

definition logMessage :: "env \<Rightarrow> MessageLog \<Rightarrow> unit io" where
  "logMessage e messageLog =
     try_catch
       (io_bind (emit (Insert messageLog)) (\<lambda>_.
          case insert_outcome e messageLog of
            InsertRejected err \<Rightarrow> throw err
          | InsertResolved (Some err) \<Rightarrow> throw err
          | InsertResolved None \<Rightarrow> ret ()))
       (\<lambda>err. ret ())"

text \<open>\<^verbatim>\<open>QueueService.logAttempt\<close>, with its arguments in the order of the source.\<close>

definition logAttempt ::
  "env \<Rightarrow> string \<Rightarrow> string \<Rightarrow> string option \<Rightarrow> nat \<Rightarrow> MessageStatus \<Rightarrow> string option \<Rightarrow>
   string option \<Rightarrow> nat option \<Rightarrow> string option \<Rightarrow> unit io" where
  "logAttempt e phone' text' externalId attempt status' errorCode' errorText durationMs'
     screenshotPath' =
     try_catch
       (logMessage e
          \<lparr> log_phone = phone', log_text_hash = hashText e text', log_status = status',
            log_attempt = attempt, log_error_code = errorCode', log_error_text = errorText,
            log_screenshot_path = screenshotPath', log_external_id = externalId,
            log_duration_ms = durationMs' \<rparr>)
       (\<lambda>err. ret ())"

text \<open>\<^verbatim>\<open>N8nWebhookService.sendCallback\<close>; the service is enabled when the URL is not
  empty.\<close>

definition enabled :: "config \<Rightarrow> bool" where
  "enabled cfg = (webhookUrl cfg \<noteq> [])"

definition sendCallback :: "env \<Rightarrow> config \<Rightarrow> N8nCallbackPayload \<Rightarrow> unit io" where
  "sendCallback e cfg payload =
     (if \<not> enabled cfg then ret ()
      else
        try_catch
          (io_bind (emit (Post (webhookUrl cfg) payload)) (\<lambda>_.
             case fetch_outcome e payload of
               FetchRejected err \<Rightarrow> throw err
             | FetchResponse ok code body \<Rightarrow>
                 if \<not> ok then
                   (case body of
                      Throws err \<Rightarrow> throw err
                    | Returns errorText \<Rightarrow>
                        throw (JsError ''Error''
                          (''N8N webhook returned '' @ show_nat code @ '': '' @ errorText)))
                 else ret ()))
          (\<lambda>err. ret ()))"

text \<open>\<^verbatim>\<open>SupabaseService.uploadScreenshot\<close> and \<^verbatim>\<open>uploadScreenshots\<close>. An empty URL is
  falsy and is not collected.\<close>

definition uploadScreenshot :: "env \<Rightarrow> string \<Rightarrow> string option io" where
  "uploadScreenshot e localFilePath =
     try_catch
       (if localFilePath = [] \<or> upload_outcome e localFilePath = FileMissing then ret None
        else
          (case upload_outcome e localFilePath of
             FileMissing \<Rightarrow> ret None
           | ReadThrew err \<Rightarrow> throw err
           | UploadThrew err \<Rightarrow> io_bind (emit (Upload localFilePath)) (\<lambda>_. throw err)
           | UploadError \<Rightarrow> io_bind (emit (Upload localFilePath)) (\<lambda>_. ret None)
           | PublicUrlThrew err \<Rightarrow> io_bind (emit (Upload localFilePath)) (\<lambda>_. throw err)
           | PublicUrl publicUrl \<Rightarrow>
               io_bind (emit (Upload localFilePath)) (\<lambda>_. ret (Some publicUrl))))
       (\<lambda>err. ret None)"

fun uploadScreenshots_from :: "env \<Rightarrow> string list \<Rightarrow> string list \<Rightarrow> string list io" where
  "uploadScreenshots_from e urls [] = ret urls"
| "uploadScreenshots_from e urls (filePath # rest) =
     io_bind (uploadScreenshot e filePath) (\<lambda>url.
       uploadScreenshots_from e
         (case url of None \<Rightarrow> urls | Some u \<Rightarrow> if u = [] then urls else urls @ [u]) rest)"

definition uploadScreenshots :: "env \<Rightarrow> string list \<Rightarrow> string list io" where
  "uploadScreenshots e screenshotPaths' = uploadScreenshots_from e [] screenshotPaths'"

section \<open>The retry scheduler (QueueService.processMessage)\<close>

text \<open>
  The call of the browser service made by attempt \<open>attempt\<close>. A truthy optional string is
  one that is present and not empty.
\<close>

definition sendMessage_call ::
  "env \<Rightarrow> nat \<Rightarrow> string \<Rightarrow> string \<Rightarrow> string list option \<Rightarrow> MessageResult io" where
  "sendMessage_call e attempt phone' text' mediaFilePaths =
     ([Send phone' text' mediaFilePaths], send_outcome e attempt)"

definition truthy :: "string option \<Rightarrow> bool" where
  "truthy s = (case s of None \<Rightarrow> False | Some v \<Rightarrow> v \<noteq> [])"

definition message_of :: "string option \<Rightarrow> string" where
  "message_of s = (case s of None \<Rightarrow> [] | Some v \<Rightarrow> v)"

text \<open>The uploads made before a callback: only when the result lists screenshots.\<close>

definition upload_listed :: "env \<Rightarrow> MessageResult \<Rightarrow> string list io" where
  "upload_listed e result =
     (case screenshotPaths result of
        None \<Rightarrow> ret []
      | Some ps \<Rightarrow> if ps \<noteq> [] then uploadScreenshots e ps else ret [])"

text \<open>\<^verbatim>\<open>Math.min(1000 * Math.pow(2, attempt), 30000)\<close>. The product is exact in double
  precision (or infinite), so that the minimum is the one of the integers.\<close>

definition retryDelay :: "nat \<Rightarrow> nat" where
  "retryDelay attempt = min (1000 * 2 ^ attempt) 30000"

text \<open>How one pass through the body of the \<^verbatim>\<open>while\<close> loop leaves it.\<close>

datatype control = Continue | Return

text \<open>
  The body of the loop, after \<^verbatim>\<open>attempt++\<close>: the inner \<^verbatim>\<open>try\<close> with its three branches
  (sent, retrying, failed) and the \<^verbatim>\<open>catch\<close> for anything thrown inside it. What is
  written to the logger is not part of the model, nor is \<^verbatim>\<open>lastError\<close>, which only the
  logger reads.
\<close>

definition attempt_body ::
  "env \<Rightarrow> config \<Rightarrow> WebhookPayload \<Rightarrow> string list \<Rightarrow> nat \<Rightarrow> control io" where
  "attempt_body e cfg payload mediaFilePaths attempt =
     try_catch
       (io_bind (logAttempt e (phone payload) (msg_text payload) (external_id payload) attempt
                   SENDING None None None None) (\<lambda>_.
        io_bind (sendMessage_call e attempt (phone payload) (msg_text payload)
                   (if mediaFilePaths \<noteq> [] then Some mediaFilePaths else None)) (\<lambda>result.
        if success result then
          io_bind (logAttempt e (phone payload) (msg_text payload) (external_id payload) attempt
                     SENT None None (durationMs result) None) (\<lambda>_.
          io_bind (upload_listed e result) (\<lambda>screenshotUrls.
          io_bind (sendCallback e cfg
                     \<lparr> cb_success = True, cb_status = SENT, cb_phone = phone payload,
                       cb_external_id = external_id payload, cb_attempt = attempt,
                       cb_duration_ms = durationMs result, cb_error = None,
                       cb_screenshot_url = None, cb_screenshot_urls = Some screenshotUrls \<rparr>) (\<lambda>_.
          io_bind (emit (RandomSleep (minDelay cfg) (maxDelay cfg))) (\<lambda>_.
          ret Return))))
        else if int attempt < maxRetries cfg \<and> truthy (errorCode result) \<and>
                isRetryableError (message_of (errorCode result)) then
          io_bind (logAttempt e (phone payload) (msg_text payload) (external_id payload) attempt
                     RETRYING (errorCode result) (error result) (durationMs result)
                     (screenshotPath result)) (\<lambda>_.
          io_bind (upload_listed e result) (\<lambda>screenshotUrls.
          io_bind (sendCallback e cfg
                     \<lparr> cb_success = False, cb_status = RETRYING, cb_phone = phone payload,
                       cb_external_id = external_id payload, cb_attempt = attempt,
                       cb_duration_ms = durationMs result,
                       cb_error = Some (errorCode result, error result),
                       cb_screenshot_url = screenshotPath result,
                       cb_screenshot_urls = Some screenshotUrls \<rparr>) (\<lambda>_.
          io_bind (emit (Sleep (retryDelay attempt))) (\<lambda>_.
          ret Continue))))
        else
          io_bind (logAttempt e (phone payload) (msg_text payload) (external_id payload) attempt
                     FAILED (errorCode result) (error result) (durationMs result)
                     (screenshotPath result)) (\<lambda>_.
          io_bind (upload_listed e result) (\<lambda>screenshotUrls.
          io_bind (sendCallback e cfg
                     \<lparr> cb_success = False, cb_status = FAILED, cb_phone = phone payload,
                       cb_external_id = external_id payload, cb_attempt = attempt,
                       cb_duration_ms = durationMs result,
                       cb_error = Some (errorCode result, error result),
                       cb_screenshot_url = screenshotPath result,
                       cb_screenshot_urls = Some screenshotUrls \<rparr>) (\<lambda>_.
          io_bind (emit (RandomSleep (minDelay cfg) (maxDelay cfg))) (\<lambda>_.
          ret Return)))))))
       (\<lambda>err.
          io_bind (logAttempt e (phone payload) (msg_text payload) (external_id payload) attempt
                     FAILED (Some ''UNEXPECTED_ERROR'') (Some (err_message err)) None None) (\<lambda>_.
          io_bind (sendCallback e cfg
                     \<lparr> cb_success = False, cb_status = FAILED, cb_phone = phone payload,
                       cb_external_id = external_id payload, cb_attempt = attempt,
                       cb_duration_ms = None,
                       cb_error = Some (Some ''UNEXPECTED_ERROR'', Some (err_message err)),
                       cb_screenshot_url = None, cb_screenshot_urls = None \<rparr>) (\<lambda>_.
          ret Return)))"

text \<open>
  The loop \<^verbatim>\<open>while (attempt < config.queue.maxRetries) { attempt++; ... }\<close>, from the
  count \<open>attempt\<close> on. Falling out of the loop only writes to the logger.
\<close>

function attempt_loop ::
  "env \<Rightarrow> config \<Rightarrow> WebhookPayload \<Rightarrow> string list \<Rightarrow> nat \<Rightarrow> unit io" where
  "attempt_loop e cfg payload mediaFilePaths attempt =
     (if int attempt < maxRetries cfg then
        io_bind (attempt_body e cfg payload mediaFilePaths (attempt + 1)) (\<lambda>c.
          case c of
            Continue \<Rightarrow> attempt_loop e cfg payload mediaFilePaths (attempt + 1)
          | Return \<Rightarrow> ret ())
      else ret ())"
  by pat_completeness auto
termination
  by (relation "measure (\<lambda>(e, cfg, payload, mediaFilePaths, attempt). nat (maxRetries cfg - int attempt))")
     auto

declare attempt_loop.simps [simp del]

text \<open>The staging of the attachments, whose failure is logged and leaves no file list.\<close>

definition saveMediaFiles :: "env \<Rightarrow> MediaFile list \<Rightarrow> string list io" where
  "saveMediaFiles e mediaFiles = ([SaveMedia mediaFiles], save_outcome e mediaFiles)"

definition stage_media :: "env \<Rightarrow> WebhookPayload \<Rightarrow> string list io" where
  "stage_media e payload =
     (case media payload of
        None \<Rightarrow> ret []
      | Some ms \<Rightarrow>
          if ms \<noteq> [] then try_catch (saveMediaFiles e ms) (\<lambda>err. ret []) else ret [])"

definition processMessage :: "env \<Rightarrow> config \<Rightarrow> WebhookPayload \<Rightarrow> unit io" where
  "processMessage e cfg payload =
     io_bind (stage_media e payload) (\<lambda>mediaFilePaths.
       try_finally (attempt_loop e cfg payload mediaFilePaths 0)
         (if mediaFilePaths \<noteq> [] then emit (Cleanup mediaFilePaths) else ret ()))"

section \<open>Media validation and the ingress (utils/helpers.ts, server/app.ts)\<close>




































section \<open>One delivery attempt in the browser (OpenPhoneService)\<close>

text \<open>
  What the page does during one call of \<^verbatim>\<open>sendMessage\<close>: how each UI step ends, which
  screenshots \<^verbatim>\<open>attachMediaFiles\<close> (one after the files were set on a file input, none
  otherwise) and \<^verbatim>\<open>clickSendButton\<close> have pushed when they end, how the screenshot of the
  verification and each query of an error selector end, whether the screenshot taken on
  error succeeds and under which path, and the time elapsed when the result is built. The
  pauses between the steps do not change how the call ends and are not modelled.
\<close>

datatype query_result = QueryThrew js_error | NoElement | Element "string option completion"

record page =
  clickNewConversation_outcome :: "unit completion"
  enterPhoneNumber_outcome :: "unit completion"
  enterMessageText_outcome :: "unit completion"
  attachMediaFiles_outcome :: "string list \<times> unit completion"
  clickSendButton_outcome :: "string list \<times> unit completion"
  verify_screenshot_outcome :: "unit completion"
  query_outcome :: "string \<Rightarrow> query_result"
  error_screenshot_outcome :: "unit completion"
  error_screenshot_path :: string
  elapsed :: nat

definition errorSelectors :: "string list" where
  "errorSelectors =
     [''[role=\"alert\"]'', ''[role=\"alertdialog\"]'', ''[class*=\"error\"][role=\"alert\"]'',
      ''[class*=\"notification\"][class*=\"error\"]'', ''[data-testid*=\"error\"]'',
      ''[data-testid*=\"alert\"]'', ''[role=\"alert\"] >> text=/invalid|failed|error/i'',
      ''[class*=\"toast\"][class*=\"error\"]'', ''[class*=\"snackbar\"][class*=\"error\"]'']"

text \<open>
  The loop over the selectors: a query or a text read that throws is caught inside the
  loop, which continues; an element whose text was read ends the scan with false; the end
  of the list ends it with true.
\<close>

fun scan_selectors :: "(string \<Rightarrow> query_result) \<Rightarrow> string list \<Rightarrow> bool" where
  "scan_selectors q [] = True"
| "scan_selectors q (selector # rest) =
     (case q selector of
        QueryThrew err \<Rightarrow> scan_selectors q rest
      | NoElement \<Rightarrow> scan_selectors q rest
      | Element (Throws err) \<Rightarrow> scan_selectors q rest
      | Element (Returns errorText) \<Rightarrow> False)"

definition verifyMessageSent :: "page option \<Rightarrow> bool completion" where
  "verifyMessageSent pg =
     (case pg of
        None \<Rightarrow> Throws (JsError ''Error'' ''Page not initialized'')
      | Some p \<Rightarrow>
          (case verify_screenshot_outcome p of
             Throws err \<Rightarrow> Returns True
           | Returns u \<Rightarrow> Returns (scan_selectors (query_outcome p) errorSelectors)))"

text \<open>Step 4 of \<^verbatim>\<open>sendMessage\<close>: the files are attached only when some are given.\<close>

definition attach_step :: "page \<Rightarrow> string list option \<Rightarrow> string list \<times> unit completion" where
  "attach_step p mediaFilePaths =
     (case mediaFilePaths of
        None \<Rightarrow> ([], Returns ())
      | Some fs \<Rightarrow> if fs \<noteq> [] then attachMediaFiles_outcome p else ([], Returns ()))"

text \<open>
  The \<^verbatim>\<open>try\<close> block of \<^verbatim>\<open>sendMessage\<close>: the list \<^verbatim>\<open>currentScreenshots\<close> as it stands when
  the block ends, and how the block ends.
\<close>

definition sendMessage_try ::
  "page \<Rightarrow> string \<Rightarrow> string \<Rightarrow> string list option \<Rightarrow> string list \<times> MessageResult completion" where
  "sendMessage_try p phone' text' mediaFilePaths =
     (case clickNewConversation_outcome p of Throws err \<Rightarrow> ([], Throws err) | Returns u1 \<Rightarrow>
      case enterPhoneNumber_outcome p of Throws err \<Rightarrow> ([], Throws err) | Returns u2 \<Rightarrow>
      case enterMessageText_outcome p of Throws err \<Rightarrow> ([], Throws err) | Returns u3 \<Rightarrow>
      case attach_step p mediaFilePaths of
        (attached, Throws err) \<Rightarrow> (attached, Throws err)
      | (attached, Returns u4) \<Rightarrow>
      case clickSendButton_outcome p of
        (shots, Throws err) \<Rightarrow> (attached @ shots, Throws err)
      | (shots, Returns u5) \<Rightarrow>
      case verifyMessageSent (Some p) of
        Throws err \<Rightarrow> (attached @ shots, Throws err)
      | Returns sent \<Rightarrow>
          if sent then
            (attached @ shots,
             Returns \<lparr> success = True, status = SENT, error = None, errorCode = None,
                       screenshotPath = None, screenshotPaths = Some (attached @ shots),
                       durationMs = Some (elapsed p) \<rparr>)
          else (attached @ shots,
                Throws (JsError ''Error'' ''Message sending verification failed'')))"

definition sendMessage ::
  "page option \<Rightarrow> string \<Rightarrow> string \<Rightarrow> string list option \<Rightarrow> MessageResult completion" where
  "sendMessage pg phone' text' mediaFilePaths =
     (case pg of
        None \<Rightarrow> Throws (JsError ''Error'' ''Browser not initialized. Call initialize() first.'')
      | Some p \<Rightarrow>
          (case sendMessage_try p phone' text' mediaFilePaths of
             (shots, Returns result) \<Rightarrow> Returns result
           | (shots, Throws err) \<Rightarrow>
               Returns \<lparr> success = False, status = FAILED, error = Some (err_message err),
                         errorCode = Some (if err_name err \<noteq> [] then err_name err
                                           else ''UNKNOWN_ERROR''),
                         screenshotPath = Some (error_screenshot_path p),
                         screenshotPaths =
                           Some (case error_screenshot_outcome p of
                                   Returns u \<Rightarrow> shots @ [error_screenshot_path p]
                                 | Throws err' \<Rightarrow> shots),
                         durationMs = Some (elapsed p) \<rparr>))"

section \<open>Reading a run\<close>

text \<open>
  The rows, the callback bodies and the browser calls of a trace, in order; the trace of
  a callback; the row built by \<open>logAttempt\<close> for a payload; the URLs and the file list
  that the uploads and the staging end with; the deletion of staged files.
\<close>

fun inserts :: "event list \<Rightarrow> MessageLog list" where
  "inserts [] = []"
| "inserts (Insert r # t) = r # inserts t"
| "inserts (ev # t) = inserts t"

fun posts :: "event list \<Rightarrow> N8nCallbackPayload list" where
  "posts [] = []"
| "posts (Post u c # t) = c # posts t"
| "posts (ev # t) = posts t"

fun sends :: "event list \<Rightarrow> (string \<times> string \<times> string list option) list" where
  "sends [] = []"
| "sends (Send p x m # t) = (p, x, m) # sends t"
| "sends (ev # t) = sends t"

fun is_upload :: "event \<Rightarrow> bool" where
  "is_upload (Upload f) = True"
| "is_upload ev = False"

definition uploaded_urls :: "env \<Rightarrow> MessageResult \<Rightarrow> string list" where
  "uploaded_urls e result =
     (case snd (upload_listed e result) of Returns urls \<Rightarrow> urls | Throws err \<Rightarrow> [])"

definition callback_events :: "config \<Rightarrow> N8nCallbackPayload \<Rightarrow> event list" where
  "callback_events cfg c = (if enabled cfg then [Post (webhookUrl cfg) c] else [])"

definition log_row ::
  "env \<Rightarrow> WebhookPayload \<Rightarrow> nat \<Rightarrow> MessageStatus \<Rightarrow> string option \<Rightarrow> string option \<Rightarrow>
   nat option \<Rightarrow> string option \<Rightarrow> MessageLog" where
  "log_row e payload attempt st code msg dur shot =
     \<lparr> log_phone = phone payload, log_text_hash = hashText e (msg_text payload),
       log_status = st, log_attempt = attempt, log_error_code = code, log_error_text = msg,
       log_screenshot_path = shot, log_external_id = external_id payload,
       log_duration_ms = dur \<rparr>"

definition staged :: "env \<Rightarrow> WebhookPayload \<Rightarrow> string list" where
  "staged e payload =
     (case snd (stage_media e payload) of Returns ps \<Rightarrow> ps | Throws err \<Rightarrow> [])"

definition cleanup_events :: "string list \<Rightarrow> event list" where
  "cleanup_events paths = (if paths \<noteq> [] then [Cleanup paths] else [])"

text \<open>The condition under which a failed attempt is retried, as the loop body tests it.\<close>

definition retry_condition :: "config \<Rightarrow> nat \<Rightarrow> MessageResult \<Rightarrow> bool" where
  "retry_condition cfg attempt result =
     (int attempt < maxRetries cfg \<and> truthy (errorCode result) \<and>
      isRetryableError (message_of (errorCode result)))"

text \<open>The terminal states, and a list of states whose last one is terminal and is the
  only terminal one.\<close>

definition terminal :: "MessageStatus \<Rightarrow> bool" where
  "terminal s = (s = SENT \<or> s = FAILED)"

fun one_terminal_last :: "MessageStatus list \<Rightarrow> bool" where
  "one_terminal_last ss =
     (case rev ss of
        [] \<Rightarrow> False
      | s # before \<Rightarrow> terminal s \<and> list_all (\<lambda>x. \<not> terminal x) before)"

declare one_terminal_last.simps [simp del]

text \<open>
  The pacing of a run: its browser calls (\<open>None\<close>) and its fixed sleeps (\<open>Some d\<close>, in
  milliseconds), in order. \<open>spec_pacing k n\<close> is the pacing the specification prescribes
  for \<open>n\<close> attempts numbered from \<open>k\<close>: after attempt \<open>k\<close>, a sleep of
  \<open>min (1000 * 2 ^ k) 30000\<close> before the next one.
\<close>

fun pacing :: "event list \<Rightarrow> nat option list" where
  "pacing [] = []"
| "pacing (Send p x m # t) = None # pacing t"
| "pacing (Sleep d # t) = Some d # pacing t"
| "pacing (ev # t) = pacing t"


section \<open>Notions used in the statements\<close>



text \<open>What a row and a callback body say about a transition, field by field.\<close>

definition log_summary ::
  "MessageLog \<Rightarrow> MessageStatus \<times> nat \<times> string \<times> string option \<times> nat option \<times>
     string option \<times> string option \<times> string option" where
  "log_summary r =
     (log_status r, log_attempt r, log_phone r, log_external_id r, log_duration_ms r,
      log_error_code r, log_error_text r, log_screenshot_path r)"

definition cb_summary ::
  "N8nCallbackPayload \<Rightarrow> MessageStatus \<times> nat \<times> string \<times> string option \<times> nat option \<times>
     string option \<times> string option \<times> string option" where
  "cb_summary c =
     (cb_status c, cb_attempt c, cb_phone c, cb_external_id c, cb_duration_ms c,
      (case cb_error c of None \<Rightarrow> None | Some ce \<Rightarrow> fst ce),
      (case cb_error c of None \<Rightarrow> None | Some ce \<Rightarrow> snd ce),
      cb_screenshot_url c)"

text \<open>
  What the retry scheduler did in a run, apart from what depends on how the sinks fared:
  the trace without the uploads and without the list of uploaded URLs in the callback
  bodies. Two environments that differ at most in their sinks.
\<close>

fun scheduler_view :: "event list \<Rightarrow> event list" where
  "scheduler_view [] = []"
| "scheduler_view (Upload f # t) = scheduler_view t"
| "scheduler_view (Post u c # t) = Post u (c \<lparr> cb_screenshot_urls := None \<rparr>) # scheduler_view t"
| "scheduler_view (ev # t) = ev # scheduler_view t"

definition returns :: "'a completion \<Rightarrow> bool" where
  "returns c = (case c of Returns v \<Rightarrow> True | Throws err \<Rightarrow> False)"

definition same_sends :: "env \<Rightarrow> env \<Rightarrow> bool" where
  "same_sends e e' =
     (send_outcome e = send_outcome e' \<and> save_outcome e = save_outcome e' \<and>
      hashText e = hashText e')"



text \<open>
  The state that the retry machine of the specification is in after attempt \<open>k\<close>: SENT
  after a success, RETRYING after a failure classified retryable while \<open>k\<close> is below
  \<open>maxRetries\<close>, FAILED after any other failure and after an exception. The row and the
  callback body that report this transition for the message \<open>payload\<close>.
\<close>

definition transition_status :: "env \<Rightarrow> config \<Rightarrow> nat \<Rightarrow> MessageStatus" where
  "transition_status e cfg k =
     (case send_outcome e k of
        Throws err \<Rightarrow> FAILED
      | Returns r \<Rightarrow>
          if success r then SENT
          else if int k < maxRetries cfg \<and> truthy (errorCode r) \<and>
                  isRetryableError (message_of (errorCode r))
          then RETRYING else FAILED)"

definition transition_row :: "env \<Rightarrow> config \<Rightarrow> WebhookPayload \<Rightarrow> nat \<Rightarrow> MessageLog" where
  "transition_row e cfg payload k =
     (case send_outcome e k of
        Throws err \<Rightarrow>
          log_row e payload k (transition_status e cfg k) (Some ''UNEXPECTED_ERROR'')
            (Some (err_message err)) None None
      | Returns r \<Rightarrow>
          if success r then
            log_row e payload k (transition_status e cfg k) None None (durationMs r) None
          else
            log_row e payload k (transition_status e cfg k) (errorCode r) (error r)
              (durationMs r) (screenshotPath r))"

definition transition_callback ::
  "env \<Rightarrow> config \<Rightarrow> WebhookPayload \<Rightarrow> nat \<Rightarrow> N8nCallbackPayload" where
  "transition_callback e cfg payload k =
     (case send_outcome e k of
        Throws err \<Rightarrow>
          \<lparr> cb_success = False, cb_status = transition_status e cfg k, cb_phone = phone payload,
            cb_external_id = external_id payload, cb_attempt = k, cb_duration_ms = None,
            cb_error = Some (Some ''UNEXPECTED_ERROR'', Some (err_message err)),
            cb_screenshot_url = None, cb_screenshot_urls = None \<rparr>
      | Returns r \<Rightarrow>
          if success r then
            \<lparr> cb_success = True, cb_status = transition_status e cfg k, cb_phone = phone payload,
              cb_external_id = external_id payload, cb_attempt = k,
              cb_duration_ms = durationMs r, cb_error = None, cb_screenshot_url = None,
              cb_screenshot_urls = Some (uploaded_urls e r) \<rparr>
          else
            \<lparr> cb_success = False, cb_status = transition_status e cfg k,
              cb_phone = phone payload, cb_external_id = external_id payload, cb_attempt = k,
              cb_duration_ms = durationMs r, cb_error = Some (errorCode r, error r),
              cb_screenshot_url = screenshotPath r,
              cb_screenshot_urls = Some (uploaded_urls e r) \<rparr>)"

text \<open>A query that yields an element whose text is read; a page on which some error
  selector does.\<close>

fun reads_alert :: "query_result \<Rightarrow> bool" where
  "reads_alert (Element (Returns errorText)) = True"
| "reads_alert (Element (Throws err)) = False"
| "reads_alert (QueryThrew err) = False"
| "reads_alert NoElement = False"

definition finds_alert :: "page \<Rightarrow> bool" where
  "finds_alert pg = list_ex (\<lambda>selector. reads_alert (query_outcome pg selector)) errorSelectors"

text \<open>The UI steps of \<open>sendMessage\<close> before the verification all succeed (the attaching
  only when files are given), and \<open>shots\<close> are the screenshots pushed by then: those of
  the attaching, if it was done, followed by those of \<open>clickSendButton\<close>.\<close>

definition ui_steps_succeed :: "page \<Rightarrow> string list option \<Rightarrow> string list \<Rightarrow> bool" where
  "ui_steps_succeed pg mediaFilePaths shots =
     (clickNewConversation_outcome pg = Returns () \<and>
      enterPhoneNumber_outcome pg = Returns () \<and>
      enterMessageText_outcome pg = Returns () \<and>
      snd (attach_step pg mediaFilePaths) = Returns () \<and>
      snd (clickSendButton_outcome pg) = Returns () \<and>
      shots = fst (attach_step pg mediaFilePaths) @ fst (clickSendButton_outcome pg))"

section \<open>Example runs\<close>

definition example_payload :: WebhookPayload where
  "example_payload =
     \<lparr> phone = ''+15551234567'', msg_text = ''hello'', external_id = None, media = None \<rparr>"

definition example_config :: config where
  "example_config =
     \<lparr> maxRetries = 3, minDelay = 8000, maxDelay = 20000,
       webhookUrl = ''https://n8n.example/webhook/sms'' \<rparr>"

definition zero_retries_config :: config where
  "zero_retries_config = example_config \<lparr> maxRetries := 0 \<rparr>"

definition sent_result :: MessageResult where
  "sent_result =
     \<lparr> success = True, status = SENT, error = None, errorCode = None, screenshotPath = None,
       screenshotPaths = Some [''before-send.png'', ''after-send.png''],
       durationMs = Some 21000 \<rparr>"

definition timeout_result :: MessageResult where
  "timeout_result =
     \<lparr> success = False, status = FAILED,
       error = Some ''page.waitForSelector: Timeout 30000ms exceeded.'',
       errorCode = Some ''TimeoutError'', screenshotPath = Some ''error.png'',
       screenshotPaths = Some [''error.png''], durationMs = Some 30500 \<rparr>"

definition rejected_result :: MessageResult where
  "rejected_result =
     \<lparr> success = False, status = FAILED,
       error = Some ''Message sending verification failed'',
       errorCode = Some ''Error'', screenshotPath = Some ''error.png'',
       screenshotPaths = Some [''before-send.png'', ''after-send.png'', ''error.png''],
       durationMs = Some 23000 \<rparr>"

text \<open>Every send succeeds and every sink works.\<close>

definition quiet_env :: env where
  "quiet_env =
     \<lparr> send_outcome = (\<lambda>k. Returns sent_result),
       save_outcome = (\<lambda>ms. Returns (map filename ms)),
       hashText = (\<lambda>t. ''2cf24dba5fb0a30e''),
       insert_outcome = (\<lambda>r. InsertResolved None),
       fetch_outcome = (\<lambda>c. FetchResponse True 200 (Returns ''ok'')),
       upload_outcome = (\<lambda>f. PublicUrl (''https://storage.example/'' @ f)) \<rparr>"

text \<open>Attempts 1 and 2 time out, attempt 3 succeeds.\<close>

definition flaky_env :: env where
  "flaky_env =
     quiet_env \<lparr> send_outcome :=
       (\<lambda>k. if k < 3 then Returns timeout_result else Returns sent_result) \<rparr>"

text \<open>The same sends, with every sink failing.\<close>

definition failing_sinks_env :: env where
  "failing_sinks_env =
     flaky_env \<lparr> insert_outcome := (\<lambda>r. InsertRejected (JsError ''Error'' ''fetch failed'')),
       fetch_outcome := (\<lambda>c. FetchResponse False 500 (Returns ''down'')),
       upload_outcome := (\<lambda>f. UploadThrew (JsError ''Error'' ''ENOENT'')) \<rparr>"


text \<open>The staging of attachments fails.\<close>

definition disk_full_env :: env where
  "disk_full_env =
     quiet_env \<lparr> save_outcome := (\<lambda>ms. Throws (JsError ''Error'' ''ENOSPC: no space left on device'')) \<rparr>"

definition png_file :: MediaFile where
  "png_file = \<lparr> filename = ''photo.png'', mimeType = ''image/png'', data = ''iVBORw0KGgo='' \<rparr>"



definition photo_payload :: WebhookPayload where
  "photo_payload = example_payload \<lparr> media := Some [png_file] \<rparr>"






text \<open>Pages of the messaging console: one on which everything works and no alert shows.\<close>

definition working_page :: page where
  "working_page =
     \<lparr> clickNewConversation_outcome = Returns (),
       enterPhoneNumber_outcome = Returns (),
       enterMessageText_outcome = Returns (),
       attachMediaFiles_outcome = ([''after-attach.png''], Returns ()),
       clickSendButton_outcome = ([''before-send.png'', ''after-send.png''], Returns ()),
       verify_screenshot_outcome = Returns (),
       query_outcome = (\<lambda>selector. NoElement),
       error_screenshot_outcome = Returns (),
       error_screenshot_path = ''error.png'',
       elapsed = 21000 \<rparr>"

text \<open>The screenshot of the verification fails while an alert is on the page.\<close>

definition screenshot_fails_page :: page where
  "screenshot_fails_page =
     working_page \<lparr> verify_screenshot_outcome := Throws (JsError ''Error'' ''Target closed''),
       query_outcome := (\<lambda>selector. Element (Returns (Some ''Message failed to send''))) \<rparr>"

text \<open>The query of the first selector throws, the second selector finds an alert.\<close>

definition query_fails_then_alert_page :: page where
  "query_fails_then_alert_page =
     working_page \<lparr> query_outcome :=
       (\<lambda>selector.
          if selector = ''[role=\"alert\"]''
          then QueryThrew (JsError ''Error'' ''Execution context was destroyed'')
          else if selector = ''[role=\"alertdialog\"]''
          then Element (Returns (Some ''Message failed to send''))
          else NoElement) \<rparr>"


section \<open>The sinks never throw; the shape of one attempt\<close>

lemma io_simps [simp]:
  "io_bind (t, Returns x) f = (t @ fst (f x), snd (f x))"
  "io_bind (t, Throws err) f = (t, Throws err)"
  "try_catch (t, Returns x) h = (t, Returns x)"
  "try_catch (t, Throws err) h = (t @ fst (h err), snd (h err))"
  by (simp_all add: io_bind_def try_catch_def split: prod.splits)

lemma logMessage_eq: "logMessage e r = ([Insert r], Returns ())"
  by (simp add: logMessage_def emit_def ret_def throw_def split: insert_result.splits option.splits)

lemma logAttempt_eq:
  "logAttempt e (phone p) (msg_text p) (external_id p) k st code etext dur shot =
     ([Insert (log_row e p k st code etext dur shot)], Returns ())"
  by (simp add: logAttempt_def logMessage_eq log_row_def)

lemma sendCallback_eq: "sendCallback e cfg c = (callback_events cfg c, Returns ())"
  by (simp add: sendCallback_def callback_events_def emit_def ret_def throw_def
      split: fetch_result.splits completion.splits)

lemma uploadScreenshot_shape:
  "\<exists>t u. uploadScreenshot e f = (t, Returns u) \<and> list_all is_upload t"
  by (cases "upload_outcome e f")
     (simp_all add: uploadScreenshot_def emit_def ret_def throw_def)

lemma uploadScreenshots_from_shape:
  "\<exists>t urls'. uploadScreenshots_from e urls fs = (t, Returns urls') \<and> list_all is_upload t"
proof (induction fs arbitrary: urls)
  case Nil
  show ?case by (simp add: ret_def)
next
  case (Cons f fs)
  obtain t1 u where u: "uploadScreenshot e f = (t1, Returns u)" "list_all is_upload t1"
    using uploadScreenshot_shape by blast
  obtain t urls' where r: "uploadScreenshots_from e
         (case u of None \<Rightarrow> urls | Some v \<Rightarrow> if v = [] then urls else urls @ [v]) fs = (t, Returns urls')"
     "list_all is_upload t"
    using Cons.IH by blast
  show ?case using u r by simp
qed

lemma upload_listed_shape:
  "\<exists>t urls. upload_listed e r = (t, Returns urls) \<and> list_all is_upload t"
proof (cases "screenshotPaths r")
  case None
  then show ?thesis by (simp add: upload_listed_def ret_def)
next
  case (Some ps)
  show ?thesis
    using Some uploadScreenshots_from_shape [of e "[]" ps]
    by (simp add: upload_listed_def uploadScreenshots_def ret_def)
qed

lemma upload_listed_uploads: "list_all is_upload (fst (upload_listed e r))"
  using upload_listed_shape [of e r] by auto

lemma io_bind_upload_listed:
  "io_bind (upload_listed e r) f =
     (fst (upload_listed e r) @ fst (f (uploaded_urls e r)), snd (f (uploaded_urls e r)))"
proof -
  obtain t urls where u: "upload_listed e r = (t, Returns urls)"
    using upload_listed_shape by blast
  show ?thesis by (simp add: u uploaded_urls_def)
qed

lemma attempt_body_threw:
  assumes "send_outcome e k = Throws err"
  shows "attempt_body e cfg p paths k =
     ([Insert (log_row e p k SENDING None None None None),
       Send (phone p) (msg_text p) (if paths \<noteq> [] then Some paths else None),
       Insert (log_row e p k FAILED (Some ''UNEXPECTED_ERROR'') (Some (err_message err)) None None)] @
      callback_events cfg
        \<lparr> cb_success = False, cb_status = FAILED, cb_phone = phone p,
          cb_external_id = external_id p, cb_attempt = k, cb_duration_ms = None,
          cb_error = Some (Some ''UNEXPECTED_ERROR'', Some (err_message err)),
          cb_screenshot_url = None, cb_screenshot_urls = None \<rparr>,
      Returns Return)"
  using assms
  by (simp add: attempt_body_def logAttempt_eq sendCallback_eq sendMessage_call_def ret_def)

lemma attempt_body_sent:
  assumes "send_outcome e k = Returns r" and "success r"
  shows "attempt_body e cfg p paths k =
     ([Insert (log_row e p k SENDING None None None None),
       Send (phone p) (msg_text p) (if paths \<noteq> [] then Some paths else None),
       Insert (log_row e p k SENT None None (durationMs r) None)] @
      fst (upload_listed e r) @
      callback_events cfg
        \<lparr> cb_success = True, cb_status = SENT, cb_phone = phone p,
          cb_external_id = external_id p, cb_attempt = k, cb_duration_ms = durationMs r,
          cb_error = None, cb_screenshot_url = None,
          cb_screenshot_urls = Some (uploaded_urls e r) \<rparr> @
      [RandomSleep (minDelay cfg) (maxDelay cfg)],
      Returns Return)"
  using assms
  by (simp add: attempt_body_def io_bind_upload_listed logAttempt_eq sendCallback_eq sendMessage_call_def ret_def emit_def)

lemma attempt_body_retrying:
  assumes "send_outcome e k = Returns r" and "\<not> success r" and "retry_condition cfg k r"
  shows "attempt_body e cfg p paths k =
     ([Insert (log_row e p k SENDING None None None None),
       Send (phone p) (msg_text p) (if paths \<noteq> [] then Some paths else None),
       Insert (log_row e p k RETRYING (errorCode r) (error r) (durationMs r) (screenshotPath r))] @
      fst (upload_listed e r) @
      callback_events cfg
        \<lparr> cb_success = False, cb_status = RETRYING, cb_phone = phone p,
          cb_external_id = external_id p, cb_attempt = k, cb_duration_ms = durationMs r,
          cb_error = Some (errorCode r, error r), cb_screenshot_url = screenshotPath r,
          cb_screenshot_urls = Some (uploaded_urls e r) \<rparr> @
      [Sleep (retryDelay k)],
      Returns Continue)"
  using assms
  by (simp add: attempt_body_def io_bind_upload_listed logAttempt_eq sendCallback_eq sendMessage_call_def ret_def emit_def
      retry_condition_def)

lemma attempt_body_failed:
  assumes "send_outcome e k = Returns r" and "\<not> success r" and "\<not> retry_condition cfg k r"
  shows "attempt_body e cfg p paths k =
     ([Insert (log_row e p k SENDING None None None None),
       Send (phone p) (msg_text p) (if paths \<noteq> [] then Some paths else None),
       Insert (log_row e p k FAILED (errorCode r) (error r) (durationMs r) (screenshotPath r))] @
      fst (upload_listed e r) @
      callback_events cfg
        \<lparr> cb_success = False, cb_status = FAILED, cb_phone = phone p,
          cb_external_id = external_id p, cb_attempt = k, cb_duration_ms = durationMs r,
          cb_error = Some (errorCode r, error r), cb_screenshot_url = screenshotPath r,
          cb_screenshot_urls = Some (uploaded_urls e r) \<rparr> @
      [RandomSleep (minDelay cfg) (maxDelay cfg)],
      Returns Return)"
  using assms
  by (simp add: attempt_body_def io_bind_upload_listed logAttempt_eq sendCallback_eq sendMessage_call_def ret_def emit_def
      retry_condition_def)

section \<open>The loop and the whole run\<close>

lemma inserts_append [simp]: "inserts (t @ u) = inserts t @ inserts u"
  by (induction t rule: inserts.induct) simp_all

lemma posts_append [simp]: "posts (t @ u) = posts t @ posts u"
  by (induction t rule: posts.induct) simp_all

lemma sends_append [simp]: "sends (t @ u) = sends t @ sends u"
  by (induction t rule: sends.induct) simp_all

lemma pacing_append [simp]: "pacing (t @ u) = pacing t @ pacing u"
  by (induction t rule: pacing.induct) simp_all

lemma uploads_silent:
  "list_all is_upload t \<Longrightarrow> inserts t = [] \<and> posts t = [] \<and> sends t = [] \<and> pacing t = []"
proof (induction t)
  case Nil
  show ?case by simp
next
  case (Cons ev t)
  then show ?case by (cases ev) simp_all
qed

lemma upload_listed_silent [simp]:
  "inserts (fst (upload_listed e r)) = []"
  "posts (fst (upload_listed e r)) = []"
  "sends (fst (upload_listed e r)) = []"
  "pacing (fst (upload_listed e r)) = []"
  using uploads_silent [OF upload_listed_uploads [of e r]] by simp_all

lemma callback_events_silent [simp]:
  "inserts (callback_events cfg c) = []"
  "sends (callback_events cfg c) = []"
  "pacing (callback_events cfg c) = []"
  "posts (callback_events cfg c) = (if enabled cfg then [c] else [])"
  by (simp_all add: callback_events_def)

lemma attempt_loop_done:
  "\<not> int a < maxRetries cfg \<Longrightarrow> attempt_loop e cfg p paths a = ([], Returns ())"
  by (subst attempt_loop.simps) (simp add: ret_def)

lemma attempt_loop_return:
  assumes "int a < maxRetries cfg" and "attempt_body e cfg p paths (Suc a) = (t, Returns Return)"
  shows "attempt_loop e cfg p paths a = (t, Returns ())"
  using assms by (subst attempt_loop.simps) (simp add: ret_def)

lemma attempt_loop_continue:
  assumes "int a < maxRetries cfg" and "attempt_body e cfg p paths (Suc a) = (t, Returns Continue)"
  shows "attempt_loop e cfg p paths a =
           (t @ fst (attempt_loop e cfg p paths (Suc a)), snd (attempt_loop e cfg p paths (Suc a)))"
  using assms by (subst attempt_loop.simps) simp


lemma body_cases:
  obtains (threw) err where "send_outcome e k = Throws err"
  | (sent) r where "send_outcome e k = Returns r" "success r"
  | (retrying) r where "send_outcome e k = Returns r" "\<not> success r" "retry_condition cfg k r"
  | (failed) r where "send_outcome e k = Returns r" "\<not> success r" "\<not> retry_condition cfg k r"
  by (cases "send_outcome e k") blast+

lemma one_terminal_last_Cons:
  "\<not> terminal s \<Longrightarrow> one_terminal_last (s # ss) = one_terminal_last ss"
  by (cases "rev ss") (simp_all add: one_terminal_last.simps)

lemma one_terminal_last_single: "one_terminal_last [s] = terminal s"
  by (simp add: one_terminal_last.simps)

lemma log_row_sel [simp]:
  "log_status (log_row e p k st code msg dur shot) = st"
  "log_attempt (log_row e p k st code msg dur shot) = k"
  "log_error_code (log_row e p k st code msg dur shot) = code"
  "log_error_text (log_row e p k st code msg dur shot) = msg"
  "log_duration_ms (log_row e p k st code msg dur shot) = dur"
  "log_screenshot_path (log_row e p k st code msg dur shot) = shot"
  by (simp_all add: log_row_def)

lemma attempt_loop_terminal:
  "int a < maxRetries cfg \<Longrightarrow>
     snd (attempt_loop e cfg p paths a) = Returns () \<and>
     one_terminal_last (map log_status (inserts (fst (attempt_loop e cfg p paths a)))) \<and>
     (if enabled cfg
      then one_terminal_last (map cb_status (posts (fst (attempt_loop e cfg p paths a))))
      else posts (fst (attempt_loop e cfg p paths a)) = [])"
proof (induction e cfg p paths a rule: attempt_loop.induct)
  case (1 e cfg p paths a)
  note lt = \<open>int a < maxRetries cfg\<close>
  show ?case
  proof (cases rule: body_cases [where e = e and k = "Suc a" and cfg = cfg])
    case (threw err)
    show ?thesis
      by (simp add: attempt_loop_return [OF lt attempt_body_threw [OF threw]]
          one_terminal_last_Cons one_terminal_last_single terminal_def)
  next
    case (sent r)
    show ?thesis
      by (simp add: attempt_loop_return [OF lt attempt_body_sent [OF sent]]
          one_terminal_last_Cons one_terminal_last_single terminal_def)
  next
    case (failed r)
    show ?thesis
      by (simp add: attempt_loop_return [OF lt attempt_body_failed [OF failed]]
          one_terminal_last_Cons one_terminal_last_single terminal_def)
  next
    case (retrying r)
    have next_lt: "int (a + 1) < maxRetries cfg"
      using retrying(3) by (simp add: retry_condition_def)
    have ih: "snd (attempt_loop e cfg p paths (Suc a)) = Returns () \<and>
      one_terminal_last (map log_status (inserts (fst (attempt_loop e cfg p paths (Suc a))))) \<and>
      (if enabled cfg
       then one_terminal_last (map cb_status (posts (fst (attempt_loop e cfg p paths (Suc a)))))
       else posts (fst (attempt_loop e cfg p paths (Suc a))) = [])"
      using "1.IH" [OF lt next_lt] by (simp cong: if_cong)
    show ?thesis
      using ih
      by (simp add: attempt_loop_continue [OF lt attempt_body_retrying [OF retrying]]
          one_terminal_last_Cons terminal_def)
  qed
qed


lemma attempt_loop_returns: "snd (attempt_loop e cfg p paths a) = Returns ()"
  using attempt_loop_terminal [of a cfg e p paths] attempt_loop_done [of a cfg e p paths]
  by (cases "int a < maxRetries cfg") simp_all

lemma attempt_loop_eq:
  "attempt_loop e cfg p paths a = (fst (attempt_loop e cfg p paths a), Returns ())"
  using attempt_loop_returns [of e cfg p paths a] by (simp add: prod_eq_iff)

lemma loop_step:
  "attempt_loop e cfg p paths a =
     (if int a < maxRetries cfg then
        (if snd (attempt_body e cfg p paths (Suc a)) = Returns Continue
         then (fst (attempt_body e cfg p paths (Suc a)) @ fst (attempt_loop e cfg p paths (Suc a)),
               Returns ())
         else (fst (attempt_body e cfg p paths (Suc a)), Returns ()))
      else ([], Returns ()))"
proof (cases "int a < maxRetries cfg")
  case False
  then show ?thesis by (simp add: attempt_loop_done)
next
  case True
  show ?thesis
  proof (cases rule: body_cases [where e = e and k = "Suc a" and cfg = cfg])
    case (threw err)
    show ?thesis
      using True attempt_loop_return [OF True attempt_body_threw [OF threw, of cfg p paths]]
      by (simp add: attempt_body_threw [OF threw])
  next
    case (sent r)
    show ?thesis
      using True attempt_loop_return [OF True attempt_body_sent [OF sent, of cfg p paths]]
      by (simp add: attempt_body_sent [OF sent])
  next
    case (failed r)
    show ?thesis
      using True attempt_loop_return [OF True attempt_body_failed [OF failed, of p paths]]
      by (simp add: attempt_body_failed [OF failed])
  next
    case (retrying r)
    show ?thesis
      using True attempt_loop_continue [OF True attempt_body_retrying [OF retrying, of p paths]]
        attempt_loop_returns [of e cfg p paths "Suc a"]
      by (simp add: attempt_body_retrying [OF retrying])
  qed
qed

lemma body_eval:
  "attempt_body e cfg p paths k =
     (case send_outcome e k of
        Throws err \<Rightarrow>
          ([Insert (log_row e p k SENDING None None None None),
            Send (phone p) (msg_text p) (if paths \<noteq> [] then Some paths else None),
            Insert (log_row e p k FAILED (Some ''UNEXPECTED_ERROR'') (Some (err_message err)) None None)] @
           callback_events cfg
             \<lparr> cb_success = False, cb_status = FAILED, cb_phone = phone p,
               cb_external_id = external_id p, cb_attempt = k, cb_duration_ms = None,
               cb_error = Some (Some ''UNEXPECTED_ERROR'', Some (err_message err)),
               cb_screenshot_url = None, cb_screenshot_urls = None \<rparr>,
           Returns Return)
      | Returns r \<Rightarrow>
          ([Insert (log_row e p k SENDING None None None None),
            Send (phone p) (msg_text p) (if paths \<noteq> [] then Some paths else None),
            Insert (log_row e p k
                      (if success r then SENT else if retry_condition cfg k r then RETRYING else FAILED)
                      (if success r then None else errorCode r)
                      (if success r then None else error r)
                      (durationMs r)
                      (if success r then None else screenshotPath r))] @
           fst (upload_listed e r) @
           callback_events cfg
             \<lparr> cb_success = success r,
               cb_status = (if success r then SENT else if retry_condition cfg k r then RETRYING else FAILED),
               cb_phone = phone p, cb_external_id = external_id p, cb_attempt = k,
               cb_duration_ms = durationMs r,
               cb_error = (if success r then None else Some (errorCode r, error r)),
               cb_screenshot_url = (if success r then None else screenshotPath r),
               cb_screenshot_urls = Some (uploaded_urls e r) \<rparr> @
           [if \<not> success r \<and> retry_condition cfg k r then Sleep (retryDelay k)
            else RandomSleep (minDelay cfg) (maxDelay cfg)],
           Returns (if \<not> success r \<and> retry_condition cfg k r then Continue else Return)))"
proof (cases rule: body_cases [where e = e and k = k and cfg = cfg])
  case (threw err)
  then show ?thesis by (simp add: attempt_body_threw)
next
  case (sent r)
  then show ?thesis by (simp add: attempt_body_sent)
next
  case (retrying r)
  then show ?thesis by (simp add: attempt_body_retrying)
next
  case (failed r)
  then show ?thesis by (simp add: attempt_body_failed)
qed

lemma stage_media_cases:
  "stage_media e p =
     (case media p of
        None \<Rightarrow> ([], Returns [])
      | Some ms \<Rightarrow>
          if ms = [] then ([], Returns [])
          else (case save_outcome e ms of
                  Returns ps \<Rightarrow> ([SaveMedia ms], Returns ps)
                | Throws err \<Rightarrow> ([SaveMedia ms], Returns [])))"
proof (cases "media p")
  case None
  then show ?thesis by (simp add: stage_media_def ret_def)
next
  case (Some ms)
  then show ?thesis
    by (cases "save_outcome e ms") (simp_all add: stage_media_def saveMediaFiles_def ret_def)
qed

lemma stage_media_eq: "stage_media e p = (fst (stage_media e p), Returns (staged e p))"
  by (simp add: staged_def stage_media_cases split: option.splits completion.splits)

lemma stage_media_silent [simp]:
  "inserts (fst (stage_media e p)) = []"
  "posts (fst (stage_media e p)) = []"
  "sends (fst (stage_media e p)) = []"
  "pacing (fst (stage_media e p)) = []"
  by (simp_all add: stage_media_cases split: option.splits completion.splits)

lemma cleanup_events_silent [simp]:
  "inserts (cleanup_events ps) = []"
  "posts (cleanup_events ps) = []"
  "sends (cleanup_events ps) = []"
  "pacing (cleanup_events ps) = []"
  by (simp_all add: cleanup_events_def)

lemma processMessage_eq:
  "processMessage e cfg p =
     (fst (stage_media e p) @ fst (attempt_loop e cfg p (staged e p) 0) @
      cleanup_events (staged e p), Returns ())"
proof -
  have "processMessage e cfg p =
      io_bind (fst (stage_media e p), Returns (staged e p)) (\<lambda>mediaFilePaths.
        try_finally (attempt_loop e cfg p mediaFilePaths 0)
          (if mediaFilePaths \<noteq> [] then emit (Cleanup mediaFilePaths) else ret ()))"
    unfolding processMessage_def using stage_media_eq [of e p] by simp
  also have "\<dots> = (fst (stage_media e p) @ fst (attempt_loop e cfg p (staged e p) 0) @
      cleanup_events (staged e p), Returns ())"
    by (subst (1 2) attempt_loop_eq)
       (simp add: try_finally_def cleanup_events_def emit_def ret_def)
  finally show ?thesis .
qed

lemma processMessage_readings [simp]:
  "inserts (fst (processMessage e cfg p)) = inserts (fst (attempt_loop e cfg p (staged e p) 0))"
  "posts (fst (processMessage e cfg p)) = posts (fst (attempt_loop e cfg p (staged e p) 0))"
  "sends (fst (processMessage e cfg p)) = sends (fst (attempt_loop e cfg p (staged e p) 0))"
  "pacing (fst (processMessage e cfg p)) = pacing (fst (attempt_loop e cfg p (staged e p) 0))"
  "snd (processMessage e cfg p) = Returns ()"
  by (simp_all add: processMessage_eq)


text \<open>Facts for evaluating the example runs.\<close>

lemma retryable_TimeoutError: "isRetryableError ''TimeoutError''"
  by code_simp

lemma not_retryable_Error: "\<not> isRetryableError ''Error''"
  by code_simp

lemma flaky_sends:
  "send_outcome flaky_env (Suc 0) = Returns timeout_result"
  "send_outcome flaky_env (Suc (Suc 0)) = Returns timeout_result"
  "send_outcome flaky_env (Suc (Suc (Suc 0))) = Returns sent_result"
  "send_outcome failing_sinks_env = send_outcome flaky_env"
  by (simp_all add: failing_sinks_env_def flaky_env_def quiet_env_def)

lemmas example_defs =
  example_config_def example_payload_def timeout_result_def sent_result_def rejected_result_def
  retry_condition_def truthy_def message_of_def retryable_TimeoutError not_retryable_Error

section \<open>Attempts, pacing and transitions of the loop\<close>

lemma body_sends:
  "sends (fst (attempt_body e cfg p paths k)) =
     [(phone p, msg_text p, if paths \<noteq> [] then Some paths else None)]"
  by (simp add: body_eval split: completion.splits)


lemma loop_sends_bound:
  "length (sends (fst (attempt_loop e cfg p paths a))) \<le> nat (maxRetries cfg - int a)"
proof (induction e cfg p paths a rule: attempt_loop.induct)
  case (1 e cfg p paths a)
  show ?case
  proof (cases "int a < maxRetries cfg")
    case False
    then show ?thesis by (simp add: attempt_loop_done)
  next
    case True
    have ih: "length (sends (fst (attempt_loop e cfg p paths (Suc a)))) \<le>
                nat (maxRetries cfg - int (Suc a))"
      using "1.IH" [OF True] by simp
    have "length (sends (fst (attempt_loop e cfg p paths a))) \<le>
            Suc (length (sends (fst (attempt_loop e cfg p paths (Suc a)))))"
      by (subst loop_step) (simp add: body_sends)
    with True ih show ?thesis by linarith
  qed
qed

lemma loop_next_attempt_only_after_retryable:
  "a < k \<Longrightarrow> k < a + length (sends (fst (attempt_loop e cfg p paths a))) \<Longrightarrow>
     \<exists>r. send_outcome e k = Returns r \<and> \<not> success r \<and> retry_condition cfg k r"
proof (induction e cfg p paths a rule: attempt_loop.induct)
  case (1 e cfg p paths a)
  have lt: "int a < maxRetries cfg"
  proof (rule ccontr)
    assume "\<not> int a < maxRetries cfg"
    then have "sends (fst (attempt_loop e cfg p paths a)) = []"
      by (simp add: attempt_loop_done)
    with "1.prems" show False by simp
  qed
  show ?case
  proof (cases rule: body_cases [where e = e and k = "Suc a" and cfg = cfg])
    case (threw err)
    have "length (sends (fst (attempt_loop e cfg p paths a))) = 1"
      by (simp add: attempt_loop_return [OF lt attempt_body_threw [OF threw]])
    with "1.prems" show ?thesis by simp
  next
    case (sent r)
    have "length (sends (fst (attempt_loop e cfg p paths a))) = 1"
      by (simp add: attempt_loop_return [OF lt attempt_body_sent [OF sent]])
    with "1.prems" show ?thesis by simp
  next
    case (failed r)
    have "length (sends (fst (attempt_loop e cfg p paths a))) = 1"
      by (simp add: attempt_loop_return [OF lt attempt_body_failed [OF failed]])
    with "1.prems" show ?thesis by simp
  next
    case (retrying r)
    have len: "length (sends (fst (attempt_loop e cfg p paths a))) =
                 Suc (length (sends (fst (attempt_loop e cfg p paths (Suc a)))))"
      by (simp add: attempt_loop_continue [OF lt attempt_body_retrying [OF retrying]])
    show ?thesis
    proof (cases "k = Suc a")
      case True
      with retrying show ?thesis by simp
    next
      case False
      with "1.prems" len
      have "a + 1 < k" "k < (a + 1) + length (sends (fst (attempt_loop e cfg p paths (a + 1))))"
        by simp_all
      then show ?thesis using "1.IH" [OF lt] by blast
    qed
  qed
qed







lemma loop_transitions:
  "map cb_summary (posts (fst (attempt_loop e cfg p paths a))) =
     (if enabled cfg
      then map log_summary
             (filter (\<lambda>r. log_status r \<noteq> SENDING) (inserts (fst (attempt_loop e cfg p paths a))))
      else []) \<and>
   length (filter (\<lambda>r. log_status r = SENDING) (inserts (fst (attempt_loop e cfg p paths a)))) =
     length (sends (fst (attempt_loop e cfg p paths a)))"
proof (induction e cfg p paths a rule: attempt_loop.induct)
  case (1 e cfg p paths a)
  show ?case
  proof (cases "int a < maxRetries cfg")
    case False
    then show ?thesis by (simp add: attempt_loop_done)
  next
    case lt: True
    show ?thesis
    proof (cases rule: body_cases [where e = e and k = "Suc a" and cfg = cfg])
      case (threw err)
      show ?thesis
        by (simp add: attempt_loop_return [OF lt attempt_body_threw [OF threw]]
            log_summary_def cb_summary_def log_row_def)
    next
      case (sent r)
      show ?thesis
        by (simp add: attempt_loop_return [OF lt attempt_body_sent [OF sent]]
            log_summary_def cb_summary_def log_row_def)
    next
      case (failed r)
      show ?thesis
        by (simp add: attempt_loop_return [OF lt attempt_body_failed [OF failed]]
            log_summary_def cb_summary_def log_row_def)
    next
      case (retrying r)
      show ?thesis
        using "1.IH" [OF lt]
        by (simp add: attempt_loop_continue [OF lt attempt_body_retrying [OF retrying]]
            log_summary_def cb_summary_def log_row_def cong: if_cong)
    qed
  qed
qed

lemma transition_threw:
  assumes "send_outcome e k = Throws err"
  shows "transition_row e cfg p k =
           log_row e p k FAILED (Some ''UNEXPECTED_ERROR'') (Some (err_message err)) None None"
    and "transition_callback e cfg p k =
           \<lparr> cb_success = False, cb_status = FAILED, cb_phone = phone p,
             cb_external_id = external_id p, cb_attempt = k, cb_duration_ms = None,
             cb_error = Some (Some ''UNEXPECTED_ERROR'', Some (err_message err)),
             cb_screenshot_url = None, cb_screenshot_urls = None \<rparr>"
  using assms by (simp_all add: transition_row_def transition_callback_def transition_status_def)

lemma transition_sent:
  assumes "send_outcome e k = Returns r" and "success r"
  shows "transition_row e cfg p k = log_row e p k SENT None None (durationMs r) None"
    and "transition_callback e cfg p k =
           \<lparr> cb_success = True, cb_status = SENT, cb_phone = phone p,
             cb_external_id = external_id p, cb_attempt = k, cb_duration_ms = durationMs r,
             cb_error = None, cb_screenshot_url = None,
             cb_screenshot_urls = Some (uploaded_urls e r) \<rparr>"
  using assms by (simp_all add: transition_row_def transition_callback_def transition_status_def)

lemma transition_retrying:
  assumes "send_outcome e k = Returns r" and "\<not> success r" and "retry_condition cfg k r"
  shows "transition_row e cfg p k =
           log_row e p k RETRYING (errorCode r) (error r) (durationMs r) (screenshotPath r)"
    and "transition_callback e cfg p k =
           \<lparr> cb_success = False, cb_status = RETRYING, cb_phone = phone p,
             cb_external_id = external_id p, cb_attempt = k, cb_duration_ms = durationMs r,
             cb_error = Some (errorCode r, error r), cb_screenshot_url = screenshotPath r,
             cb_screenshot_urls = Some (uploaded_urls e r) \<rparr>"
  using assms
  by (simp_all add: transition_row_def transition_callback_def transition_status_def
      retry_condition_def)

lemma transition_failed:
  assumes "send_outcome e k = Returns r" and "\<not> success r" and "\<not> retry_condition cfg k r"
  shows "transition_row e cfg p k =
           log_row e p k FAILED (errorCode r) (error r) (durationMs r) (screenshotPath r)"
    and "transition_callback e cfg p k =
           \<lparr> cb_success = False, cb_status = FAILED, cb_phone = phone p,
             cb_external_id = external_id p, cb_attempt = k, cb_duration_ms = durationMs r,
             cb_error = Some (errorCode r, error r), cb_screenshot_url = screenshotPath r,
             cb_screenshot_urls = Some (uploaded_urls e r) \<rparr>"
proof -
  have st: "transition_status e cfg k = FAILED"
    using assms by (auto simp: transition_status_def retry_condition_def)
  show "transition_row e cfg p k =
           log_row e p k FAILED (errorCode r) (error r) (durationMs r) (screenshotPath r)"
    using assms(1,2) by (simp add: transition_row_def st)
  show "transition_callback e cfg p k =
           \<lparr> cb_success = False, cb_status = FAILED, cb_phone = phone p,
             cb_external_id = external_id p, cb_attempt = k, cb_duration_ms = durationMs r,
             cb_error = Some (errorCode r, error r), cb_screenshot_url = screenshotPath r,
             cb_screenshot_urls = Some (uploaded_urls e r) \<rparr>"
    using assms(1,2) by (simp add: transition_callback_def st)
qed

lemma attempts_single: "[Suc a..<Suc (a + Suc 0)] = [Suc a]"
  by simp

lemma attempts_Cons: "[Suc a..<Suc (a + Suc n)] = Suc a # [Suc (Suc a)..<Suc (Suc a + n)]"
  by (simp add: upt_conv_Cons)

lemma loop_rows_and_callbacks:
  "inserts (fst (attempt_loop e cfg p paths a)) =
     concat (map (\<lambda>k. [log_row e p k SENDING None None None None, transition_row e cfg p k])
       [Suc a..<Suc (a + length (sends (fst (attempt_loop e cfg p paths a))))]) \<and>
   posts (fst (attempt_loop e cfg p paths a)) =
     (if enabled cfg
      then map (transition_callback e cfg p)
             [Suc a..<Suc (a + length (sends (fst (attempt_loop e cfg p paths a))))]
      else [])"
proof (induction e cfg p paths a rule: attempt_loop.induct)
  case (1 e cfg p paths a)
  show ?case
  proof (cases "int a < maxRetries cfg")
    case False
    then show ?thesis by (simp add: attempt_loop_done)
  next
    case lt: True
    show ?thesis
    proof (cases rule: body_cases [where e = e and k = "Suc a" and cfg = cfg])
      case (threw err)
      note unfold = attempt_loop_return [OF lt attempt_body_threw [OF threw]]
      have one: "length (sends (fst (attempt_loop e cfg p paths a))) = Suc 0"
        by (simp add: unfold)
      show ?thesis
        unfolding one attempts_single
        by (simp add: unfold transition_threw [OF threw])
    next
      case (sent r)
      note unfold = attempt_loop_return [OF lt attempt_body_sent [OF sent]]
      have one: "length (sends (fst (attempt_loop e cfg p paths a))) = Suc 0"
        by (simp add: unfold)
      show ?thesis
        unfolding one attempts_single
        by (simp add: unfold transition_sent [OF sent])
    next
      case (failed r)
      note unfold = attempt_loop_return [OF lt attempt_body_failed [OF failed]]
      have one: "length (sends (fst (attempt_loop e cfg p paths a))) = Suc 0"
        by (simp add: unfold)
      show ?thesis
        unfolding one attempts_single
        by (simp add: unfold transition_failed [OF failed])
    next
      case (retrying r)
      note unfold = attempt_loop_continue [OF lt attempt_body_retrying [OF retrying]]
      have more: "length (sends (fst (attempt_loop e cfg p paths a))) =
          Suc (length (sends (fst (attempt_loop e cfg p paths (Suc a)))))"
        by (simp add: unfold)
      have ih: "inserts (fst (attempt_loop e cfg p paths (Suc a))) =
          concat (map (\<lambda>k. [log_row e p k SENDING None None None None, transition_row e cfg p k])
            [Suc (Suc a)..<Suc (Suc a + length (sends (fst (attempt_loop e cfg p paths (Suc a)))))]) \<and>
        posts (fst (attempt_loop e cfg p paths (Suc a))) =
          (if enabled cfg
           then map (transition_callback e cfg p)
                  [Suc (Suc a)..<Suc (Suc a + length (sends (fst (attempt_loop e cfg p paths (Suc a)))))]
           else [])"
        using "1.IH" [OF lt] by (simp cong: if_cong)
      have rows: "inserts (fst (attempt_loop e cfg p paths a)) =
          [log_row e p (Suc a) SENDING None None None None, transition_row e cfg p (Suc a)] @
          inserts (fst (attempt_loop e cfg p paths (Suc a)))"
        by (simp add: unfold transition_retrying [OF retrying])
      have calls: "posts (fst (attempt_loop e cfg p paths a)) =
          (if enabled cfg then [transition_callback e cfg p (Suc a)] else []) @
          posts (fst (attempt_loop e cfg p paths (Suc a)))"
        by (simp add: unfold transition_retrying [OF retrying])
      show ?thesis
        unfolding more attempts_Cons rows calls
        using ih by simp
    qed
  qed
qed

section \<open>Runs that differ only in their sinks or in their attachments\<close>

lemma scheduler_view_append [simp]:
  "scheduler_view (t @ u) = scheduler_view t @ scheduler_view u"
  by (induction t rule: scheduler_view.induct) simp_all

lemma scheduler_view_uploads: "list_all is_upload t \<Longrightarrow> scheduler_view t = []"
proof (induction t)
  case Nil
  show ?case by simp
next
  case (Cons ev t)
  then show ?case by (cases ev) simp_all
qed

lemma scheduler_view_upload_listed [simp]: "scheduler_view (fst (upload_listed e r)) = []"
  by (rule scheduler_view_uploads [OF upload_listed_uploads])

lemma scheduler_view_callback [simp]:
  "scheduler_view (callback_events cfg c) = callback_events cfg (c \<lparr> cb_screenshot_urls := None \<rparr>)"
  by (simp add: callback_events_def)

lemma body_view:
  assumes "same_sends e e'"
  shows "scheduler_view (fst (attempt_body e cfg p paths k)) =
           scheduler_view (fst (attempt_body e' cfg p paths k))"
    and "snd (attempt_body e cfg p paths k) = snd (attempt_body e' cfg p paths k)"
proof -
  have eq: "send_outcome e k = send_outcome e' k" "hashText e = hashText e'"
    using assms by (simp_all add: same_sends_def)
  show "scheduler_view (fst (attempt_body e cfg p paths k)) =
           scheduler_view (fst (attempt_body e' cfg p paths k))"
    by (cases "send_outcome e' k") (simp_all add: body_eval eq log_row_def)
  show "snd (attempt_body e cfg p paths k) = snd (attempt_body e' cfg p paths k)"
    by (cases "send_outcome e' k") (simp_all add: body_eval eq)
qed

lemma loop_view:
  assumes "same_sends e e'"
  shows "scheduler_view (fst (attempt_loop e cfg p paths a)) =
           scheduler_view (fst (attempt_loop e' cfg p paths a))"
  using assms
proof (induction e cfg p paths a rule: attempt_loop.induct)
  case (1 e cfg p paths a)
  show ?case
  proof (cases "int a < maxRetries cfg")
    case False
    then show ?thesis by (simp add: attempt_loop_done)
  next
    case True
    have ih: "scheduler_view (fst (attempt_loop e cfg p paths (Suc a))) =
                scheduler_view (fst (attempt_loop e' cfg p paths (Suc a)))"
      using "1.IH" [OF True "1.prems"] by simp
    show ?thesis
      using True ih body_view [OF "1.prems", of cfg p paths "Suc a"]
      by (subst (1 2) loop_step) simp
  qed
qed

lemma stage_view:
  assumes "same_sends e e'"
  shows "stage_media e p = stage_media e' p"
  using assms by (auto simp: stage_media_cases same_sends_def split: option.splits)

lemma body_media_irrelevant:
  "attempt_body e cfg (p \<lparr> media := m \<rparr>) paths k = attempt_body e cfg p paths k"
  by (cases "send_outcome e k") (simp_all add: body_eval log_row_def)

lemma loop_media_irrelevant:
  "attempt_loop e cfg (p \<lparr> media := m \<rparr>) paths a = attempt_loop e cfg p paths a"
proof (induction e cfg p paths a rule: attempt_loop.induct)
  case (1 e cfg p paths a)
  show ?case
  proof (cases "int a < maxRetries cfg")
    case False
    then show ?thesis by (simp add: attempt_loop_done)
  next
    case True
    have ih: "attempt_loop e cfg (p \<lparr> media := m \<rparr>) paths (Suc a) = attempt_loop e cfg p paths (Suc a)"
      using "1.IH" [OF True] by simp
    show ?thesis
      by (subst (1 2) loop_step) (simp add: body_media_irrelevant ih)
  qed
qed

lemma loop_sends_no_media:
  "list_all (\<lambda>s. snd (snd s) = None) (sends (fst (attempt_loop e cfg p [] a)))"
proof (induction e cfg p "[] :: string list" a rule: attempt_loop.induct)
  case (1 e cfg p a)
  show ?case
  proof (cases "int a < maxRetries cfg")
    case False
    then show ?thesis by (simp add: attempt_loop_done)
  next
    case True
    show ?thesis
      using "1.hyps" [OF True]
      by (subst loop_step) (simp add: body_sends)
  qed
qed

section \<open>Media validation\<close>










section \<open>The verification scan\<close>

lemma scan_selectors_iff:
  "scan_selectors q sels \<longleftrightarrow> \<not> list_ex (\<lambda>selector. reads_alert (q selector)) sels"
proof (induction sels)
  case Nil
  show ?case by simp
next
  case (Cons selector rest)
  then show ?case
    by (cases "q selector" rule: reads_alert.cases) simp_all
qed


section \<open>Facts about the example runs\<close>

lemma flaky_staged [simp]: "staged flaky_env example_payload = []"
  by (simp add: staged_def stage_media_cases example_payload_def)

lemma flaky_attempts:
  "length (sends (fst (processMessage flaky_env example_config example_payload))) = 3"
  by (simp add: loop_step body_eval flaky_sends example_defs)



section \<open>Claims about the retry scheduler\<close>

text \<open>
  C1 (as amended). When \<open>maxRetries\<close> is at least 1, every run of \<open>processMessage\<close> returns
  normally, whatever the attempts end with (success, retryable failures up to exhaustion,
  a failure that is not retryable, a thrown exception), and among the rows it hands to the
  audit sink exactly one has a terminal status (SENT or FAILED), and it is the last row;
  when a webhook URL is configured the same holds of the callback bodies it posts, and
  without a URL nothing is posted.
\<close>

theorem processMessage_one_terminal_record:
  assumes "0 < maxRetries cfg"
  shows "snd (processMessage e cfg p) = Returns () \<and>
     one_terminal_last (map log_status (inserts (fst (processMessage e cfg p)))) \<and>
     (if enabled cfg
      then one_terminal_last (map cb_status (posts (fst (processMessage e cfg p))))
      else posts (fst (processMessage e cfg p)) = [])"
  using attempt_loop_terminal [of 0 cfg e p "staged e p"] assms by (simp cong: if_cong)

text \<open>The run of the example: two timeouts, then success.\<close>

theorem processMessage_one_terminal_record_witness:
  "0 < maxRetries example_config \<and>
   snd (processMessage flaky_env example_config example_payload) = Returns () \<and>
   map log_status (inserts (fst (processMessage flaky_env example_config example_payload))) =
     [SENDING, RETRYING, SENDING, RETRYING, SENDING, SENT] \<and>
   map cb_status (posts (fst (processMessage flaky_env example_config example_payload))) =
     [RETRYING, RETRYING, SENT] \<and>
   one_terminal_last
     (map log_status (inserts (fst (processMessage flaky_env example_config example_payload)))) \<and>
   one_terminal_last
     (map cb_status (posts (fst (processMessage flaky_env example_config example_payload))))"
proof -
  have pos: "0 < maxRetries example_config"
    by (simp add: example_config_def)
  have on: "enabled example_config"
    by (simp add: enabled_def example_config_def)
  have rows: "map log_status (inserts (fst (processMessage flaky_env example_config example_payload))) =
     [SENDING, RETRYING, SENDING, RETRYING, SENDING, SENT]"
    by (simp add: loop_step body_eval flaky_sends example_defs)
  have bodies: "map cb_status (posts (fst (processMessage flaky_env example_config example_payload))) =
     [RETRYING, RETRYING, SENT]"
    by (simp add: loop_step body_eval flaky_sends example_defs enabled_def)
  show ?thesis
    using processMessage_one_terminal_record [OF pos, of flaky_env example_payload] pos on rows bodies
    by simp
qed

text \<open>With \<open>maxRetries = 0\<close> the loop is not entered: the run has no effect at all, so no
  terminal row is written and no terminal callback is posted.\<close>

theorem processMessage_zero_retries_counterexample:
  "processMessage quiet_env zero_retries_config example_payload = ([], Returns ()) \<and>
   \<not> one_terminal_last
        (map log_status (inserts (fst (processMessage quiet_env zero_retries_config example_payload))))"
  by (simp add: processMessage_eq stage_media_cases staged_def cleanup_events_def loop_step
      zero_retries_config_def example_defs one_terminal_last.simps)

text \<open>
  C2. In every run the number of calls of the browser service is at most \<open>maxRetries\<close> (none
  when it is not positive), the run returns, and an attempt \<open>k\<close> is followed by another
  one only when it returned a failure whose error code is classified retryable while \<open>k\<close>
  was strictly below \<open>maxRetries\<close>. The loop is a total function: it ends after at most
  \<open>maxRetries\<close> passes, each of which makes one call.
\<close>

theorem processMessage_attempts_bounded:
  "length (sends (fst (processMessage e cfg p))) \<le> nat (maxRetries cfg) \<and>
   (0 \<le> maxRetries cfg \<longrightarrow> int (length (sends (fst (processMessage e cfg p)))) \<le> maxRetries cfg) \<and>
   snd (processMessage e cfg p) = Returns () \<and>
   (\<forall>k. 1 \<le> k \<and> k < length (sends (fst (processMessage e cfg p))) \<longrightarrow>
      (\<exists>r. send_outcome e k = Returns r \<and> \<not> success r \<and> int k < maxRetries cfg \<and>
           truthy (errorCode r) \<and> isRetryableError (message_of (errorCode r))))"
proof -
  have "length (sends (fst (processMessage e cfg p))) \<le> nat (maxRetries cfg)"
    using loop_sends_bound [of e cfg p "staged e p" 0] by simp
  moreover have "\<exists>r. send_outcome e k = Returns r \<and> \<not> success r \<and> int k < maxRetries cfg \<and>
           truthy (errorCode r) \<and> isRetryableError (message_of (errorCode r))"
    if "1 \<le> k" and "k < length (sends (fst (processMessage e cfg p)))" for k
    using loop_next_attempt_only_after_retryable [of 0 k e cfg p "staged e p"] that
    by (simp add: retry_condition_def)
  ultimately show ?thesis by auto
qed

text \<open>In the example run attempt 2 is followed by attempt 3: it had timed out.\<close>

theorem processMessage_attempts_bounded_witness:
  "0 \<le> maxRetries example_config \<and>
   int (length (sends (fst (processMessage flaky_env example_config example_payload)))) \<le>
     maxRetries example_config \<and>
   length (sends (fst (processMessage flaky_env example_config example_payload))) = 3 \<and>
   send_outcome flaky_env 2 = Returns timeout_result \<and>
   \<not> success timeout_result \<and> int 2 < maxRetries example_config \<and>
   truthy (errorCode timeout_result) \<and> isRetryableError (message_of (errorCode timeout_result))"
proof -
  note inst = processMessage_attempts_bounded [of flaky_env example_config example_payload]
  have nonneg: "0 \<le> maxRetries example_config"
    by (simp add: example_config_def)
  have bound: "int (length (sends (fst (processMessage flaky_env example_config example_payload)))) \<le>
     maxRetries example_config"
    using inst nonneg by blast
  have two: "send_outcome flaky_env 2 = Returns timeout_result"
    by (simp add: flaky_env_def quiet_env_def)
  have "1 \<le> (2::nat) \<and> 2 < length (sends (fst (processMessage flaky_env example_config example_payload)))"
    by (simp only: flaky_attempts) simp
  then have "\<exists>r. send_outcome flaky_env 2 = Returns r \<and> \<not> success r \<and>
       int 2 < maxRetries example_config \<and> truthy (errorCode r) \<and>
       isRetryableError (message_of (errorCode r))"
    using inst by blast
  with two have "\<not> success timeout_result \<and> int 2 < maxRetries example_config \<and>
     truthy (errorCode timeout_result) \<and> isRetryableError (message_of (errorCode timeout_result))"
    by (auto simp only: completion.inject)
  with nonneg bound two flaky_attempts show ?thesis by blast
qed





text \<open>
  C10. If the staging of the attachments throws, the run goes on as the run of the same
  message without attachments does: after the failed staging its effects and its
  completion are those of that run, so every call of the browser service is made without
  a file list, nothing is cleaned up, and the rows and callbacks (a SENT among them, if
  an attempt succeeds) are the ones of a message that never had attachments.
\<close>

theorem staging_failure_drops_media:
  assumes "media p = Some ms" and "ms \<noteq> []" and "save_outcome e ms = Throws err"
  shows "processMessage e cfg p =
           (SaveMedia ms # fst (processMessage e cfg (p \<lparr> media := None \<rparr>)), Returns ()) \<and>
         snd (processMessage e cfg (p \<lparr> media := None \<rparr>)) = Returns () \<and>
         list_all (\<lambda>s. snd (snd s) = None) (sends (fst (processMessage e cfg p)))"
proof -
  have st: "stage_media e p = ([SaveMedia ms], Returns [])"
    using assms by (simp add: stage_media_cases)
  have st': "stage_media e (p \<lparr> media := None \<rparr>) = ([], Returns [])"
    by (simp add: stage_media_cases)
  show ?thesis
    using loop_sends_no_media [of e cfg p 0]
    by (simp add: processMessage_eq st st' staged_def cleanup_events_def loop_media_irrelevant)
qed

text \<open>A photo that cannot be written to a full disk: the text is sent and reported SENT.\<close>

theorem staging_failure_drops_media_witness:
  "media photo_payload = Some [png_file] \<and>
   save_outcome disk_full_env [png_file] =
     Throws (JsError ''Error'' ''ENOSPC: no space left on device'') \<and>
   sends (fst (processMessage disk_full_env example_config photo_payload)) =
     [(''+15551234567'', ''hello'', None)] \<and>
   map log_status (inserts (fst (processMessage disk_full_env example_config photo_payload))) =
     [SENDING, SENT] \<and>
   map cb_status (posts (fst (processMessage disk_full_env example_config photo_payload))) = [SENT] \<and>
   processMessage disk_full_env example_config photo_payload =
     (SaveMedia [png_file] #
        fst (processMessage disk_full_env example_config (photo_payload \<lparr> media := None \<rparr>)),
      Returns ())"
proof -
  have m: "media photo_payload = Some [png_file]" "[png_file] \<noteq> []"
    by (simp_all add: photo_payload_def)
  have s: "save_outcome disk_full_env [png_file] =
     Throws (JsError ''Error'' ''ENOSPC: no space left on device'')"
    by (simp add: disk_full_env_def)
  have plain: "photo_payload \<lparr> media := None \<rparr> = example_payload"
    by (simp add: photo_payload_def example_payload_def)
  have run: "sends (fst (processMessage disk_full_env example_config example_payload)) =
       [(''+15551234567'', ''hello'', None)] \<and>
     map log_status (inserts (fst (processMessage disk_full_env example_config example_payload))) =
       [SENDING, SENT] \<and>
     map cb_status (posts (fst (processMessage disk_full_env example_config example_payload))) = [SENT]"
    by (simp add: loop_step body_eval staged_def stage_media_cases disk_full_env_def quiet_env_def
        example_defs enabled_def)
  show ?thesis
    using staging_failure_drops_media [OF m s, of example_config] m(1) s run
    by (simp add: plain)
qed

text \<open>
  C7 (as amended). In every run with \<open>n\<close> attempts, the rows handed to the audit sink
  are, for each attempt \<open>k\<close> from 1 to \<open>n\<close> in turn, a SENDING row at its start and then
  the row of the transition that follows it (SENT, RETRYING or FAILED, with the attempt
  number, duration, error code, error text and screenshot path of the outcome), and
  nothing else; the callback bodies posted by the notifier are, when a webhook URL is
  configured, the callbacks of these transitions, one for each attempt, in the same order,
  and none otherwise. So both sinks are invoked on every transition to SENT, RETRYING and
  FAILED, with records that agree field by field, while a transition to SENDING reaches
  only the audit sink: no callback with status \<open>sending\<close> is ever posted.
\<close>

theorem transitions_reported:
  "inserts (fst (processMessage e cfg p)) =
     concat (map (\<lambda>k. [log_row e p k SENDING None None None None, transition_row e cfg p k])
       [1..<Suc (length (sends (fst (processMessage e cfg p))))]) \<and>
   posts (fst (processMessage e cfg p)) =
     (if enabled cfg
      then map (transition_callback e cfg p)
             [1..<Suc (length (sends (fst (processMessage e cfg p))))]
      else []) \<and>
   map cb_summary (posts (fst (processMessage e cfg p))) =
     (if enabled cfg
      then map log_summary
             (filter (\<lambda>r. log_status r \<noteq> SENDING) (inserts (fst (processMessage e cfg p))))
      else []) \<and>
   length (filter (\<lambda>r. log_status r = SENDING) (inserts (fst (processMessage e cfg p)))) =
     length (sends (fst (processMessage e cfg p))) \<and>
   filter (\<lambda>c. cb_status c = SENDING) (posts (fst (processMessage e cfg p))) = []"
proof -
  let ?t = "fst (attempt_loop e cfg p (staged e p) 0)"
  have all: "inserts ?t =
       concat (map (\<lambda>k. [log_row e p k SENDING None None None None, transition_row e cfg p k])
         [1..<Suc (length (sends ?t))]) \<and>
     posts ?t =
       (if enabled cfg then map (transition_callback e cfg p) [1..<Suc (length (sends ?t))]
        else [])"
    using loop_rows_and_callbacks [of e cfg p "staged e p" 0] by (simp cong: if_cong)
  have main: "map cb_summary (posts ?t) =
       (if enabled cfg then map log_summary (filter (\<lambda>r. log_status r \<noteq> SENDING) (inserts ?t))
        else []) \<and>
     length (filter (\<lambda>r. log_status r = SENDING) (inserts ?t)) = length (sends ?t)"
    by (rule loop_transitions)
  have "\<forall>s \<in> set (map cb_summary (posts ?t)). fst s \<noteq> SENDING"
    by (subst conjunct1 [OF main]) (auto simp: log_summary_def)
  then have "filter (\<lambda>c. cb_status c = SENDING) (posts ?t) = []"
    by (auto simp: filter_empty_conv cb_summary_def)
  with all main show ?thesis by (simp cong: if_cong)
qed

text \<open>The example run: the rows and the callbacks of its three attempts.\<close>

theorem transitions_reported_witness:
  "enabled example_config \<and>
   length (sends (fst (processMessage flaky_env example_config example_payload))) = 3 \<and>
   map (\<lambda>r. (log_status r, log_attempt r))
     (inserts (fst (processMessage flaky_env example_config example_payload))) =
     [(SENDING, 1), (RETRYING, 1), (SENDING, 2), (RETRYING, 2), (SENDING, 3), (SENT, 3)] \<and>
   map (\<lambda>c. (cb_status c, cb_attempt c))
     (posts (fst (processMessage flaky_env example_config example_payload))) =
     [(RETRYING, 1), (RETRYING, 2), (SENT, 3)] \<and>
   map fst (map cb_summary (posts (fst (processMessage flaky_env example_config example_payload)))) =
     [RETRYING, RETRYING, SENT]"
proof -
  note inst = transitions_reported [of flaky_env example_config example_payload]
  have on: "enabled example_config"
    by (simp add: enabled_def example_config_def)
  have attempts: "[1..<Suc 3] = [1, 2, 3]"
    by (simp add: upt_rec)
  have st: "transition_status flaky_env example_config (Suc 0) = RETRYING"
      "transition_status flaky_env example_config 2 = RETRYING"
      "transition_status flaky_env example_config 3 = SENT"
    by (simp_all add: transition_status_def flaky_env_def quiet_env_def example_defs)
  have out: "send_outcome flaky_env (Suc 0) = Returns timeout_result"
      "send_outcome flaky_env 2 = Returns timeout_result"
      "send_outcome flaky_env 3 = Returns sent_result"
    by (simp_all add: flaky_env_def quiet_env_def)
  have rows: "map (\<lambda>r. (log_status r, log_attempt r))
       (inserts (fst (processMessage flaky_env example_config example_payload))) =
     [(SENDING, 1), (RETRYING, 1), (SENDING, 2), (RETRYING, 2), (SENDING, 3), (SENT, 3)]"
    by (subst conjunct1 [OF inst], simp only: flaky_attempts attempts)
       (simp add: transition_row_def st out timeout_result_def sent_result_def)
  have calls: "posts (fst (processMessage flaky_env example_config example_payload)) =
      map (transition_callback flaky_env example_config example_payload) [1, 2, 3]"
    using conjunct1 [OF conjunct2 [OF inst]] on by (simp only: flaky_attempts attempts if_True)
  have bodies: "map (\<lambda>c. (cb_status c, cb_attempt c))
       (posts (fst (processMessage flaky_env example_config example_payload))) =
     [(RETRYING, 1), (RETRYING, 2), (SENT, 3)]"
    unfolding calls
    by (simp add: transition_callback_def st out timeout_result_def sent_result_def)
  have summaries: "map fst (map cb_summary
       (posts (fst (processMessage flaky_env example_config example_payload)))) =
     [RETRYING, RETRYING, SENT]"
    unfolding calls
    by (simp add: cb_summary_def transition_callback_def st out timeout_result_def sent_result_def)
  show ?thesis
    using on flaky_attempts rows bodies summaries by blast
qed

text \<open>A message sent at the first attempt: the SENDING row has no callback.\<close>

theorem no_sending_callback_counterexample:
  "map log_status (inserts (fst (processMessage quiet_env example_config example_payload))) =
     [SENDING, SENT] \<and>
   map cb_status (posts (fst (processMessage quiet_env example_config example_payload))) = [SENT]"
  by (simp add: loop_step body_eval quiet_env_def example_defs enabled_def)

section \<open>Claims about the sinks\<close>

text \<open>
  C5. Whatever the database client, \<^verbatim>\<open>fetch\<close> and the storage client do (resolve with an
  error, reject, throw), \<open>logMessage\<close>, \<open>logAttempt\<close>, \<open>sendCallback\<close>, \<open>uploadScreenshot\<close>
  and \<open>uploadScreenshots\<close> return to their caller and never throw. Hence two runs on the
  same message whose environments differ only in how the sinks fare make the same
  attempts, write the same rows, sleep the same times, post callbacks with the same
  status, attempt and error, and end the same way: they differ at most in the uploads
  made and in the list of uploaded URLs carried by the callbacks.
\<close>

theorem sinks_never_propagate:
  "returns (snd (logMessage e row)) \<and>
   returns (snd (logAttempt e ph tx ext k st code msg dur shot)) \<and>
   returns (snd (sendCallback e cfg c)) \<and>
   returns (snd (uploadScreenshot e f)) \<and>
   returns (snd (uploadScreenshots e fs)) \<and>
   (same_sends e e' \<longrightarrow>
      scheduler_view (fst (processMessage e cfg p)) = scheduler_view (fst (processMessage e' cfg p)) \<and>
      snd (processMessage e cfg p) = snd (processMessage e' cfg p))"
proof -
  have "returns (snd (logMessage e row))"
    by (simp add: logMessage_eq returns_def)
  moreover have "returns (snd (logAttempt e ph tx ext k st code msg dur shot))"
    by (simp add: logAttempt_def logMessage_eq returns_def)
  moreover have "returns (snd (sendCallback e cfg c))"
    by (simp add: sendCallback_eq returns_def)
  moreover have "returns (snd (uploadScreenshot e f))"
    using uploadScreenshot_shape [of e f] by (auto simp: returns_def)
  moreover have "returns (snd (uploadScreenshots e fs))"
    using uploadScreenshots_from_shape [of e "[]" fs]
    by (auto simp: returns_def uploadScreenshots_def)
  moreover have "scheduler_view (fst (processMessage e cfg p)) =
        scheduler_view (fst (processMessage e' cfg p)) \<and>
      snd (processMessage e cfg p) = snd (processMessage e' cfg p)" if same: "same_sends e e'"
  proof -
    have st: "staged e p = staged e' p" "fst (stage_media e p) = fst (stage_media e' p)"
      using stage_view [OF same, of p] by (simp_all add: staged_def)
    show ?thesis
      using loop_view [OF same, of cfg p "staged e' p" 0]
      by (simp add: processMessage_eq st)
  qed
  ultimately show ?thesis by blast
qed

text \<open>The example run with every sink failing, against the same run with working sinks.\<close>

theorem sinks_never_propagate_witness:
  "same_sends failing_sinks_env flaky_env \<and>
   insert_outcome failing_sinks_env
     (log_row failing_sinks_env example_payload 1 SENDING None None None None) =
     InsertRejected (JsError ''Error'' ''fetch failed'') \<and>
   scheduler_view (fst (processMessage failing_sinks_env example_config example_payload)) =
     scheduler_view (fst (processMessage flaky_env example_config example_payload)) \<and>
   snd (processMessage failing_sinks_env example_config example_payload) =
     snd (processMessage flaky_env example_config example_payload)"
proof -
  have same: "same_sends failing_sinks_env flaky_env"
    by (simp add: same_sends_def failing_sinks_env_def)
  have rejected: "insert_outcome failing_sinks_env
      (log_row failing_sinks_env example_payload 1 SENDING None None None None) =
      InsertRejected (JsError ''Error'' ''fetch failed'')"
    by (simp add: failing_sinks_env_def)
  show ?thesis
    using sinks_never_propagate
      [where e = failing_sinks_env and e' = flaky_env and cfg = example_config
         and p = example_payload]
      same rejected
    by blast
qed

section \<open>Claims about the ingress\<close>




section \<open>Claims about the browser service\<close>

text \<open>
  C9 (as amended). When the UI steps of \<open>sendMessage\<close> have succeeded and the screenshot of
  the verification scan throws, or no error selector yields an element whose text can be
  read (each query throws, finds nothing, or finds an element whose text read throws),
  \<open>verifyMessageSent\<close> returns true and \<open>sendMessage\<close> returns a success with status
  SENT. A query that throws is skipped and does not by itself decide the outcome.
\<close>

theorem verification_failure_counts_as_sent:
  assumes "ui_steps_succeed pg paths shots"
    and "verify_screenshot_outcome pg = Throws err \<or> \<not> finds_alert pg"
  shows "verifyMessageSent (Some pg) = Returns True \<and>
     sendMessage (Some pg) ph tx paths =
       Returns \<lparr> success = True, status = SENT, error = None, errorCode = None,
                 screenshotPath = None, screenshotPaths = Some shots,
                 durationMs = Some (elapsed pg) \<rparr>"
proof -
  have v: "verifyMessageSent (Some pg) = Returns True"
    using assms(2)
    by (cases "verify_screenshot_outcome pg")
       (simp_all add: verifyMessageSent_def scan_selectors_iff finds_alert_def)
  obtain attached where a: "attach_step pg paths = (attached, Returns ())"
    using assms(1) by (cases "attach_step pg paths") (simp add: ui_steps_succeed_def)
  obtain clicked where c: "clickSendButton_outcome pg = (clicked, Returns ())"
    using assms(1) by (cases "clickSendButton_outcome pg") (simp add: ui_steps_succeed_def)
  have s: "shots = attached @ clicked"
    using assms(1) by (simp add: ui_steps_succeed_def a c)
  show ?thesis
    using assms(1) v
    by (simp add: ui_steps_succeed_def sendMessage_def sendMessage_try_def a c s)
qed

text \<open>The screenshot fails while every selector would find an alert: the message counts
  as sent.\<close>

theorem verification_failure_counts_as_sent_witness:
  "ui_steps_succeed screenshot_fails_page None [''before-send.png'', ''after-send.png''] \<and>
   verify_screenshot_outcome screenshot_fails_page = Throws (JsError ''Error'' ''Target closed'') \<and>
   finds_alert screenshot_fails_page \<and>
   verifyMessageSent (Some screenshot_fails_page) = Returns True \<and>
   sendMessage (Some screenshot_fails_page) ''+15551234567'' ''hello'' None =
     Returns \<lparr> success = True, status = SENT, error = None, errorCode = None,
               screenshotPath = None,
               screenshotPaths = Some [''before-send.png'', ''after-send.png''],
               durationMs = Some 21000 \<rparr>"
proof -
  have steps: "ui_steps_succeed screenshot_fails_page None [''before-send.png'', ''after-send.png'']"
    by (simp add: ui_steps_succeed_def attach_step_def screenshot_fails_page_def working_page_def)
  have shot: "verify_screenshot_outcome screenshot_fails_page =
      Throws (JsError ''Error'' ''Target closed'')"
    by (simp add: screenshot_fails_page_def)
  have alert: "finds_alert screenshot_fails_page"
    by (simp add: finds_alert_def screenshot_fails_page_def errorSelectors_def)
  have time: "elapsed screenshot_fails_page = 21000"
    by (simp add: screenshot_fails_page_def working_page_def)
  show ?thesis
    using verification_failure_counts_as_sent
      [OF steps disjI1 [OF shot], of "''+15551234567''" "''hello''"] steps shot alert time
    by simp
qed

text \<open>The query of the first selector throws and the second selector finds an alert: the
  scan returns false and the attempt is a failure.\<close>

theorem query_error_then_alert_counterexample:
  "query_outcome query_fails_then_alert_page ''[role=\"alert\"]'' =
     QueryThrew (JsError ''Error'' ''Execution context was destroyed'') \<and>
   verifyMessageSent (Some query_fails_then_alert_page) = Returns False \<and>
   sendMessage (Some query_fails_then_alert_page) ''+15551234567'' ''hello'' None =
     Returns \<lparr> success = False, status = FAILED,
               error = Some ''Message sending verification failed'', errorCode = Some ''Error'',
               screenshotPath = Some ''error.png'',
               screenshotPaths = Some [''before-send.png'', ''after-send.png'', ''error.png''],
               durationMs = Some 21000 \<rparr>"
  by (simp add: query_fails_then_alert_page_def working_page_def verifyMessageSent_def
      errorSelectors_def sendMessage_def sendMessage_try_def attach_step_def)

end
